theory Spec2Isabelle
  imports Main
begin

section \<open>Data model of the socket handler\<close>

text \<open>
  The theory embeds \<^verbatim>\<open>socketHandler\<close> (socket/socket-handler.js, printed after
  server.js) together with the model methods it calls (\<^verbatim>\<open>hasMember\<close> of the
  group-chat model, the \<^verbatim>\<open>readBy\<close> list of the message model).

  Mongo object ids and socket.io connection ids are opaque identifiers that the code only
  compares for equality (after \<^verbatim>\<open>toString()\<close>); they are natural numbers here.
  A socket id is assigned by socket.io and is never the empty string, so the test
  \<^verbatim>\<open>if (recipientSocketId)\<close> is the test that the map has an entry.
  \<^verbatim>\<open>Date.now()\<close> is the field \<open>now\<close> of the environment.
\<close>

type_synonym user_id = nat
type_synonym socket_id = nat
type_synonym obj_id = nat
type_synonym time = nat

text \<open>The user document, as far as the handler writes it.\<close>

record user =
  username :: string
  u_status :: string
  u_socketId :: "socket_id option"
  u_lastSeen :: time

record friendship =
  requester :: user_id
  f_recipient :: user_id
  f_status :: string

record chat =
  c_id :: obj_id
  participants :: "user_id list"
  c_lastActivity :: time

record member =
  mem_user :: user_id
  mem_role :: string

record groupchat =
  g_id :: obj_id
  g_name :: string
  members :: "member list"
  g_lastActivity :: time

record read_receipt =
  rr_user :: user_id
  rr_readAt :: time

record message =
  m_id :: obj_id
  m_sender :: user_id
  m_content :: string
  m_chatId :: obj_id
  m_chatType :: string
  m_messageType :: string
  m_mediaUrl :: "string option"
  readBy :: "read_receipt list"

record notification =
  n_id :: obj_id
  n_recipient :: user_id
  n_sender :: user_id
  n_type :: string
  n_content :: string
  relatedChatId :: obj_id
  relatedChatType :: string
  relatedMessageId :: obj_id
  isRead :: bool
  n_readAt :: "time option"

text \<open>
  The connection object: \<^verbatim>\<open>socket.id\<close> and the user document that the
  authentication middleware attached as \<^verbatim>\<open>socket.user\<close>.
\<close>

record socket =
  sock_id :: socket_id
  sock_user :: user_id
  sock_username :: string

text \<open>
  Rooms are named by strings in socket.io: the connection's own id, the user id
  (\<^verbatim>\<open>socket.join(userId)\<close>) and \<^verbatim>\<open>group:<id>\<close>.
\<close>

datatype room = Socket_room socket_id | User_room user_id | Group_room obj_id

text \<open>
  Where an event is sent: \<^verbatim>\<open>io.to(room).emit\<close> reaches every connection in the room,
  \<^verbatim>\<open>socket.to(room).emit\<close> every connection in the room but the emitting one,
  \<^verbatim>\<open>socket.emit\<close> the connection itself.
\<close>

datatype target = Io_to room | Socket_to socket_id room | Socket_emit socket_id

datatype event =
    User_status_change user_id string string "time option"
  | Active_friends "user_id list"
  | Unread_notifications_count nat
  | Receive_private_message message obj_id "user_id list"
  | Private_message_sent message obj_id
  | Receive_group_message message obj_id string
  | Group_message_sent message obj_id
  | Message_error string
  | Typing obj_id user_id string
  | Error_event string
  | Message_read obj_id user_id string time
  | Joined_group obj_id
  | Left_group obj_id

text \<open>
  The process state: the \<^verbatim>\<open>activeUsers\<close> map, socket.io's room table, the
  collections of the database, and the log of the events emitted so far.
\<close>

record state =
  activeUsers :: "user_id \<rightharpoonup> socket_id"
  rooms :: "room \<Rightarrow> socket_id set"
  users :: "user_id \<rightharpoonup> user"
  friendships :: "friendship list"
  chats :: "chat list"
  groups :: "groupchat list"
  messages :: "message list"
  notifications :: "notification list"
  emitted :: "(target \<times> event) list"

text \<open>
  Every awaited database call can reject. The environment says which ones do in the
  handler run at hand, what time it is, and which object ids the driver gives to the
  documents created in the run. A call rejects on a database error and on a validation
  error of the schema alike: a run whose payload has a \<^verbatim>\<open>messageType\<close> outside the
  list of the Message schema is a run in which \<open>Message_save\<close> fails.
\<close>

datatype db_op =
    User_findByIdAndUpdate
  | GroupChat_find
  | Friendship_find
  | Notification_countDocuments
  | Chat_findOne
  | Chat_save
  | Chat_findById
  | GroupChat_findById
  | GroupChat_save
  | Message_save
  | Message_populate
  | Message_findById
  | Notification_write user_id
  | Notification_findByIdAndUpdate

record env =
  now :: time
  oid :: "nat \<Rightarrow> obj_id"
  fails :: "db_op \<Rightarrow> bool"

section \<open>Emitting and rooms\<close>

definition emit :: "target \<Rightarrow> event \<Rightarrow> state \<Rightarrow> state" where
  "emit t e s = s\<lparr>emitted := emitted s @ [(t, e)]\<rparr>"

definition join :: "socket_id \<Rightarrow> room \<Rightarrow> state \<Rightarrow> state" where
  "join sid r s = s\<lparr>rooms := (rooms s)(r := insert sid (rooms s r))\<rparr>"

definition leave :: "socket_id \<Rightarrow> room \<Rightarrow> state \<Rightarrow> state" where
  "leave sid r s = s\<lparr>rooms := (rooms s)(r := rooms s r - {sid})\<rparr>"

text \<open>The connections an emission reaches, given the room table.\<close>

fun receivers :: "state \<Rightarrow> target \<Rightarrow> socket_id set" where
  "receivers s (Io_to r) = rooms s r"
| "receivers s (Socket_to sid r) = rooms s r - {sid}"
| "receivers s (Socket_emit sid) = {sid}"

text \<open>The events of a log that reach connection \<open>sid\<close>.\<close>

definition delivered :: "state \<Rightarrow> socket_id \<Rightarrow> (target \<times> event) list \<Rightarrow> event list" where
  "delivered s sid out = map snd (filter (\<lambda>te. sid \<in> receivers s (fst te)) out)"

section \<open>Friends\<close>

text \<open>
  \<^verbatim>\<open>Friendship.find({$or: [{requester}, {recipient}], status: 'accepted'})\<close> followed
  by the map to the other end of each edge.
\<close>

definition friendIds :: "user_id \<Rightarrow> friendship list \<Rightarrow> user_id list" where
  "friendIds uid fs =
     map (\<lambda>f. if requester f = uid then f_recipient f else requester f)
       (filter (\<lambda>f. (requester f = uid \<or> f_recipient f = uid) \<and> f_status f = ''accepted'') fs)"

text \<open>The \<^verbatim>\<open>friendIds.forEach\<close> loop: one event for each friend with an entry.\<close>

fun emit_to_friends :: "user_id list \<Rightarrow> event \<Rightarrow> state \<Rightarrow> state" where
  "emit_to_friends [] e s = s"
| "emit_to_friends (f # fs) e s =
     emit_to_friends fs e
       (case activeUsers s f of
          None \<Rightarrow> s
        | Some friendSocketId \<Rightarrow> emit (Io_to (Socket_room friendSocketId)) e s)"

section \<open>Connection and disconnection\<close>

text \<open>
  \<^verbatim>\<open>User.findByIdAndUpdate(id, update)\<close>: changes the document when it exists and
  resolves to null otherwise.
\<close>

definition user_update :: "user_id \<Rightarrow> (user \<Rightarrow> user) \<Rightarrow> state \<Rightarrow> state" where
  "user_update uid f s = s\<lparr>users := (users s)(uid := map_option f (users s uid))\<rparr>"

text \<open>The \<^verbatim>\<open>groupChats.forEach\<close> loop of the connection handler.\<close>

fun join_groups :: "socket_id \<Rightarrow> groupchat list \<Rightarrow> state \<Rightarrow> state" where
  "join_groups sid [] s = s"
| "join_groups sid (g # gs) s = join_groups sid gs (join sid (Group_room (g_id g)) s)"

definition hasMember :: "groupchat \<Rightarrow> user_id \<Rightarrow> bool" where
  "hasMember g uid = list_ex (\<lambda>m. mem_user m = uid) (members g)"

text \<open>
  \<^verbatim>\<open>io.on('connection')\<close>. socket.io has put the connection into the room of its own
  id before the handler runs. Each await that rejects leaves the try block; the catch only
  logs.
\<close>

definition connection :: "env \<Rightarrow> socket \<Rightarrow> state \<Rightarrow> state" where
  "connection e sock s0 =
     (let userId = sock_user sock;
          sid = sock_id sock;
          s = join sid (Socket_room sid) s0
      in if fails e User_findByIdAndUpdate then s
      else
        let s1 = user_update userId
                   (\<lambda>u. u\<lparr>u_status := ''online'', u_socketId := Some sid, u_lastSeen := now e\<rparr>) s;
            s2 = s1\<lparr>activeUsers := (activeUsers s1)(userId \<mapsto> sid)\<rparr>;
            s3 = join sid (User_room userId) s2
        in if fails e GroupChat_find then s3
        else
          let s4 = join_groups sid (filter (\<lambda>g. hasMember g userId) (groups s3)) s3
          in if fails e Friendship_find then s4
          else
            let fr = friendIds userId (friendships s4);
                s5 = emit_to_friends fr (User_status_change userId (sock_username sock) ''online'' None) s4;
                activeFriendIds = filter (\<lambda>i. activeUsers s5 i \<noteq> None) fr;
                s6 = emit (Socket_emit sid) (Active_friends activeFriendIds) s5
            in if fails e Notification_countDocuments then s6
            else
              emit (Socket_emit sid)
                (Unread_notifications_count
                   (length (filter (\<lambda>n. n_recipient n = userId \<and> isRead n = False) (notifications s6))))
                s6)"

text \<open>
  \<^verbatim>\<open>socket.on('disconnect')\<close>. socket.io has taken the connection out of every room
  before the event fires. The entry of \<^verbatim>\<open>activeUsers\<close> is deleted by user id alone.
\<close>

definition disconnect :: "env \<Rightarrow> socket \<Rightarrow> state \<Rightarrow> state" where
  "disconnect e sock s0 =
     (let userId = sock_user sock;
          s = s0\<lparr>rooms := (\<lambda>r. rooms s0 r - {sock_id sock})\<rparr>
      in if fails e User_findByIdAndUpdate then s
      else
        let s1 = user_update userId
                   (\<lambda>u. u\<lparr>u_status := ''offline'', u_lastSeen := now e, u_socketId := None\<rparr>) s;
            s2 = s1\<lparr>activeUsers := (activeUsers s1)(userId := None)\<rparr>
        in if fails e Friendship_find then s2
        else
          emit_to_friends (friendIds userId (friendships s2))
            (User_status_change userId (sock_username sock) ''offline'' (Some (now e))) s2)"

section \<open>JavaScript values of the payload\<close>

text \<open>
  A payload field is a string or is missing (\<^verbatim>\<open>undefined\<close>). A JavaScript string is
  a sequence of UTF-16 code units; \<^verbatim>\<open>length\<close> and \<^verbatim>\<open>substring\<close> count
  those, and a \<open>char\<close> stands for one of them.
\<close>

text \<open>\<^verbatim>\<open>x || d\<close>: undefined and the empty string are falsy.\<close>

definition or_default :: "string option \<Rightarrow> string \<Rightarrow> string" where
  "or_default x d = (case x of None \<Rightarrow> d | Some c \<Rightarrow> if c = [] then d else c)"

text \<open>\<^verbatim>\<open>mediaUrl || null\<close>.\<close>

definition or_null :: "string option \<Rightarrow> string option" where
  "or_null x = (case x of None \<Rightarrow> None | Some c \<Rightarrow> if c = [] then None else Some c)"

text \<open>A value inside a template literal: undefined prints as the word.\<close>

definition template :: "string option \<Rightarrow> string" where
  "template x = (case x of None \<Rightarrow> ''undefined'' | Some c \<Rightarrow> c)"

text \<open>\<^verbatim>\<open>content.substring(0, 30)\<close> followed by the dots when the content is longer.\<close>

definition preview :: "string \<Rightarrow> string" where
  "preview c = take 30 c @ (if length c > 30 then ''...'' else [])"

record payload =
  content :: "string option"
  mediaUrl :: "string option"
  messageType :: "string option"

record private_payload = payload +
  recipientId :: user_id

record group_payload = payload +
  groupId :: obj_id

section \<open>Sending a private message\<close>

text \<open>The \<^verbatim>\<open>content ? .. : ..\<close> of the notification text.\<close>

definition private_notification_content :: "string \<Rightarrow> string option \<Rightarrow> string option \<Rightarrow> string" where
  "private_notification_content uname c mt =
     (case c of
        Some txt \<Rightarrow>
          if txt \<noteq> [] then uname @ '' sent you a message: '' @ preview txt
          else uname @ '' sent you a '' @ template mt
      | None \<Rightarrow> uname @ '' sent you a '' @ template mt)"

text \<open>
  \<^verbatim>\<open>trim: true\<close> of the Message schema: the setter of \<^verbatim>\<open>content\<close> applies
  \<^verbatim>\<open>String.prototype.trim\<close>, which removes white space and line terminators from
  both ends. Those among the code units that a \<open>char\<close> can hold are tab, line feed,
  vertical tab, form feed, carriage return, space and no-break space.
\<close>

definition is_space :: "char \<Rightarrow> bool" where
  "is_space c = (c \<in> set [CHR 0x09, CHR 0x0A, CHR 0x0B, CHR 0x0C, CHR 0x0D, CHR 0x20, CHR 0xA0])"

definition trim :: "string \<Rightarrow> string" where
  "trim c = rev (dropWhile is_space (rev (dropWhile is_space c)))"

text \<open>
  \<^verbatim>\<open>new Message({...})\<close> as both message handlers build it; the content is trimmed
  when it is assigned.
\<close>

definition new_message :: "env \<Rightarrow> nat \<Rightarrow> user_id \<Rightarrow> obj_id \<Rightarrow> string \<Rightarrow> 'a payload_scheme \<Rightarrow> message" where
  "new_message e k senderId cid ctype d =
     \<lparr>m_id = oid e k, m_sender = senderId, m_content = trim (or_default (content d) []),
      m_chatId = cid, m_chatType = ctype,
      m_messageType = or_default (messageType d) ''text'',
      m_mediaUrl = or_null (mediaUrl d),
      readBy = [\<lparr>rr_user = senderId, rr_readAt = now e\<rparr>]\<rparr>"

text \<open>
  \<^verbatim>\<open>Chat.findOne({participants: {$all: [senderId, recipientId]}})\<close>: the first chat
  whose participants contain both.
\<close>

definition find_chat :: "user_id \<Rightarrow> user_id \<Rightarrow> chat list \<Rightarrow> chat option" where
  "find_chat a b cs = find (\<lambda>c. a \<in> set (participants c) \<and> b \<in> set (participants c)) cs"

text \<open>
  The chat of the two users after \<^verbatim>\<open>chat.save()\<close>: a new one, or the one found with
  its last activity set.
\<close>

definition find_or_create_chat :: "env \<Rightarrow> user_id \<Rightarrow> user_id \<Rightarrow> state \<Rightarrow> chat \<times> state" where
  "find_or_create_chat e senderId rid s =
     (case find_chat senderId rid (chats s) of
        None \<Rightarrow>
          (let c = \<lparr>c_id = oid e 0, participants = [senderId, rid], c_lastActivity = now e\<rparr>
           in (c, s\<lparr>chats := chats s @ [c]\<rparr>))
      | Some c0 \<Rightarrow>
          (let c = c0\<lparr>c_lastActivity := now e\<rparr>
           in (c, s\<lparr>chats := map (\<lambda>x. if c_id x = c_id c then x\<lparr>c_lastActivity := now e\<rparr> else x)
                                 (chats s)\<rparr>)))"

definition private_notification :: "env \<Rightarrow> socket \<Rightarrow> private_payload \<Rightarrow> chat \<Rightarrow> message \<Rightarrow> notification" where
  "private_notification e sock d ch msg =
     \<lparr>n_id = oid e 2, n_recipient = recipientId d, n_sender = sock_user sock, n_type = ''message'',
      n_content = private_notification_content (sock_username sock) (content d) (messageType d),
      relatedChatId = c_id ch, relatedChatType = ''Chat'', relatedMessageId = m_id msg,
      isRead = False, n_readAt = None\<rparr>"

text \<open>The catch block of both message handlers.\<close>

definition send_failed :: "socket \<Rightarrow> state \<Rightarrow> state" where
  "send_failed sock s = emit (Socket_emit (sock_id sock)) (Message_error ''Failed to send message'') s"

text \<open>\<^verbatim>\<open>socket.on('send-private-message')\<close>.\<close>

definition send_private_message :: "env \<Rightarrow> socket \<Rightarrow> private_payload \<Rightarrow> state \<Rightarrow> state" where
  "send_private_message e sock d s =
     (let senderId = sock_user sock
      in if fails e Chat_findOne then send_failed sock s
      else if fails e Chat_save then send_failed sock s
      else
        let (ch, s1) = find_or_create_chat e senderId (recipientId d) s;
            msg = new_message e 1 senderId (c_id ch) ''Chat'' d
        in if fails e Message_save then send_failed sock s1
        else
          let s2 = s1\<lparr>messages := messages s1 @ [msg]\<rparr>
          in if fails e Message_populate then send_failed sock s2
          else
            let recipientSocketId = activeUsers s2 (recipientId d);
                s3 = (case recipientSocketId of
                        Some r \<Rightarrow>
                          emit (Io_to (Socket_room r))
                            (Receive_private_message msg (c_id ch) (participants ch)) s2
                      | None \<Rightarrow> s2)
            in if recipientSocketId = None \<and> fails e (Notification_write (recipientId d))
               then send_failed sock s3
               else
                 let s4 = (if recipientSocketId = None
                           then s3\<lparr>notifications := notifications s3 @ [private_notification e sock d ch msg]\<rparr>
                           else s3)
                 in emit (Socket_emit (sock_id sock)) (Private_message_sent msg (c_id ch)) s4)"

section \<open>Sending a group message\<close>

definition group_notification_content :: "string \<Rightarrow> string \<Rightarrow> string option \<Rightarrow> string option \<Rightarrow> string" where
  "group_notification_content uname gname c mt =
     (case c of
        Some txt \<Rightarrow>
          if txt \<noteq> [] then uname @ '' sent a message in '' @ gname @ '': '' @ preview txt
          else uname @ '' sent a '' @ template mt @ '' in '' @ gname
      | None \<Rightarrow> uname @ '' sent a '' @ template mt @ '' in '' @ gname)"

definition group_notification ::
  "env \<Rightarrow> socket \<Rightarrow> group_payload \<Rightarrow> groupchat \<Rightarrow> message \<Rightarrow> nat \<times> user_id \<Rightarrow> notification" where
  "group_notification e sock d g msg im =
     \<lparr>n_id = oid e (Suc (fst im)), n_recipient = snd im, n_sender = sock_user sock, n_type = ''message'',
      n_content = group_notification_content (sock_username sock) (g_name g) (content d) (messageType d),
      relatedChatId = groupId d, relatedChatType = ''GroupChat'', relatedMessageId = m_id msg,
      isRead = False, n_readAt = None\<rparr>"

text \<open>
  \<^verbatim>\<open>group.members.filter(..).map(member => member.user)\<close>: the members other than
  the sender that have no entry in \<^verbatim>\<open>activeUsers\<close>.
\<close>

definition offlineMembers :: "state \<Rightarrow> user_id \<Rightarrow> groupchat \<Rightarrow> user_id list" where
  "offlineMembers s senderId g =
     map mem_user
       (filter (\<lambda>m. mem_user m \<noteq> senderId \<and> activeUsers s (mem_user m) = None) (members g))"

text \<open>
  \<^verbatim>\<open>Notification.insertMany(docs)\<close> with its default \<^verbatim>\<open>ordered: true\<close>: the
  documents are written in order up to the first one whose write fails, and the call rejects
  (\<open>Inl\<close>) when one failed.
\<close>

definition insertMany :: "env \<Rightarrow> notification list \<Rightarrow> state \<Rightarrow> state + state" where
  "insertMany e ns s =
     (let written = takeWhile (\<lambda>n. \<not> fails e (Notification_write (n_recipient n))) ns;
          s' = s\<lparr>notifications := notifications s @ written\<rparr>
      in if length written < length ns then Inl s' else Inr s')"

text \<open>\<^verbatim>\<open>socket.on('send-group-message')\<close>.\<close>

definition send_group_message :: "env \<Rightarrow> socket \<Rightarrow> group_payload \<Rightarrow> state \<Rightarrow> state" where
  "send_group_message e sock d s =
     (let senderId = sock_user sock
      in if fails e GroupChat_findById then send_failed sock s
      else
        case find (\<lambda>g. g_id g = groupId d) (groups s) of
          None \<Rightarrow> emit (Socket_emit (sock_id sock)) (Message_error ''Group not found'') s
        | Some g \<Rightarrow>
            if \<not> hasMember g senderId
            then emit (Socket_emit (sock_id sock)) (Message_error ''Not a member of this group'') s
            else if fails e GroupChat_save then send_failed sock s
            else
              let s1 = s\<lparr>groups := map (\<lambda>x. if g_id x = g_id g then x\<lparr>g_lastActivity := now e\<rparr> else x)
                                       (groups s)\<rparr>;
                  msg = new_message e 0 senderId (groupId d) ''GroupChat'' d
              in if fails e Message_save then send_failed sock s1
              else
                let s2 = s1\<lparr>messages := messages s1 @ [msg]\<rparr>
                in if fails e Message_populate then send_failed sock s2
                else
                  let s3 = emit (Io_to (Group_room (groupId d)))
                             (Receive_group_message msg (g_id g) (g_name g)) s2;
                      off = offlineMembers s3 senderId g
                  in if length off > 0
                     then (case insertMany e (map (group_notification e sock d g msg) (enumerate 0 off)) s3 of
                             Inl s4 \<Rightarrow> send_failed sock s4
                           | Inr s4 \<Rightarrow> emit (Socket_emit (sock_id sock)) (Group_message_sent msg (groupId d)) s4)
                     else emit (Socket_emit (sock_id sock)) (Group_message_sent msg (groupId d)) s3)"

section \<open>Typing, read receipts, status, rooms, notifications\<close>

text \<open>
  \<^verbatim>\<open>socket.on('typing-start')\<close>. The handler has no try block; the lookup of the
  chat is a promise whose rejection is logged.
\<close>

definition typing_start :: "env \<Rightarrow> socket \<Rightarrow> obj_id \<Rightarrow> string \<Rightarrow> state \<Rightarrow> state" where
  "typing_start e sock chatId chatType s =
     (if chatType = ''Chat'' then
        (if fails e Chat_findById then s
         else
           case find (\<lambda>c. c_id c = chatId) (chats s) of
             None \<Rightarrow> s
           | Some ch \<Rightarrow>
               (case find (\<lambda>i. i \<noteq> sock_user sock) (participants ch) of
                  None \<Rightarrow> s
                | Some otherUserId \<Rightarrow>
                    (case activeUsers s otherUserId of
                       None \<Rightarrow> s
                     | Some otherUserSocketId \<Rightarrow>
                         emit (Io_to (Socket_room otherUserSocketId))
                           (Typing chatId (sock_user sock) (sock_username sock)) s)))
      else if chatType = ''GroupChat'' then
        emit (Socket_to (sock_id sock) (Group_room chatId))
          (Typing chatId (sock_user sock) (sock_username sock)) s
      else s)"

text \<open>
  \<^verbatim>\<open>socket.on('mark-as-read')\<close>; the catch only logs. The handler is suspended
  at its two awaits, and handlers of other events run in between, so it is given in the
  three pieces that run without interruption. An awaited call rejects or resolves.
\<close>

datatype 'a awaited = Rejects | Resolves 'a

text \<open>
  \<^verbatim>\<open>await Message.findById(messageId)\<close>: the document as the collection holds it
  when the query runs, or null.
\<close>

definition findById_message :: "env \<Rightarrow> obj_id \<Rightarrow> state \<Rightarrow> message option awaited" where
  "findById_message e messageId s =
     (if fails e Message_findById then Rejects
      else Resolves (find (\<lambda>m. m_id m = messageId) (messages s)))"

text \<open>
  From the resolution of \<^verbatim>\<open>findById\<close> to the resolution of
  \<^verbatim>\<open>message.save()\<close>. The test of \<^verbatim>\<open>readBy\<close> is made on the document that was
  loaded; \<^verbatim>\<open>save()\<close> sends the pushed entry, which the database appends to the list
  it holds now. The second component is the loaded message when the handler goes on after
  the save.
\<close>

definition mark_as_read_loaded ::
  "env \<Rightarrow> socket \<Rightarrow> obj_id \<Rightarrow> message option \<Rightarrow> state \<Rightarrow> state \<times> message option" where
  "mark_as_read_loaded e sock messageId doc s =
     (let userId = sock_user sock
      in case doc of
           None \<Rightarrow> (emit (Socket_emit (sock_id sock)) (Error_event ''Message not found'') s, None)
         | Some msg \<Rightarrow>
             (let alreadyRead = list_ex (\<lambda>r. rr_user r = userId) (readBy msg)
              in if \<not> alreadyRead then
                   (if fails e Message_save then (s, None)
                    else
                      (s\<lparr>messages :=
                           map (\<lambda>m. if m_id m = messageId
                                     then m\<lparr>readBy := readBy m @ [\<lparr>rr_user = userId, rr_readAt = now e\<rparr>]\<rparr>
                                     else m) (messages s)\<rparr>,
                       Some msg))
                 else (s, None)))"

text \<open>After the save: the read receipt for the sender of the message, if connected.\<close>

definition mark_as_read_saved :: "env \<Rightarrow> socket \<Rightarrow> obj_id \<Rightarrow> message \<Rightarrow> state \<Rightarrow> state" where
  "mark_as_read_saved e sock messageId msg s1 =
     (case activeUsers s1 (m_sender msg) of
        None \<Rightarrow> s1
      | Some senderSocketId \<Rightarrow>
          emit (Io_to (Socket_room senderSocketId))
            (Message_read messageId (sock_user sock) (sock_username sock) (now e)) s1)"

text \<open>The handler from the resolution of \<^verbatim>\<open>findById\<close> to its end.\<close>

definition mark_as_read_resume :: "env \<Rightarrow> socket \<Rightarrow> obj_id \<Rightarrow> message option \<Rightarrow> state \<Rightarrow> state" where
  "mark_as_read_resume e sock messageId doc s =
     (case mark_as_read_loaded e sock messageId doc s of
        (s1, None) \<Rightarrow> s1
      | (s1, Some msg) \<Rightarrow> mark_as_read_saved e sock messageId msg s1)"

text \<open>A run of the handler during which no other handler runs.\<close>

definition mark_as_read :: "env \<Rightarrow> socket \<Rightarrow> obj_id \<Rightarrow> state \<Rightarrow> state" where
  "mark_as_read e sock messageId s =
     (case findById_message e messageId s of
        Rejects \<Rightarrow> s
      | Resolves doc \<Rightarrow> mark_as_read_resume e sock messageId doc s)"

text \<open>
  \<^verbatim>\<open>socket.on('set-status')\<close>. A field of the update that is undefined is left as it
  is in the document.
\<close>

definition set_status :: "env \<Rightarrow> socket \<Rightarrow> string \<Rightarrow> state \<Rightarrow> state" where
  "set_status e sock status s =
     (let userId = sock_user sock
      in if \<not> (status \<in> set [''online'', ''away'', ''offline''])
         then emit (Socket_emit (sock_id sock)) (Error_event ''Invalid status'') s
      else if fails e User_findByIdAndUpdate then s
      else
        let s1 = user_update userId
                   (\<lambda>u. u\<lparr>u_status := status,
                           u_lastSeen := (if status = ''offline'' then now e else u_lastSeen u)\<rparr>) s
        in if fails e Friendship_find then s1
        else
          emit_to_friends (friendIds userId (friendships s1))
            (User_status_change userId (sock_username sock) status
               (if status = ''offline'' then Some (now e) else None)) s1)"

text \<open>\<^verbatim>\<open>socket.on('join-group')\<close> and \<^verbatim>\<open>socket.on('leave-group')\<close>.\<close>

definition join_group :: "env \<Rightarrow> socket \<Rightarrow> obj_id \<Rightarrow> state \<Rightarrow> state" where
  "join_group e sock gid s =
     (if fails e GroupChat_findById
      then emit (Socket_emit (sock_id sock)) (Error_event ''Failed to join group'') s
      else
        case find (\<lambda>g. g_id g = gid) (groups s) of
          None \<Rightarrow> emit (Socket_emit (sock_id sock)) (Error_event ''Group not found'') s
        | Some g \<Rightarrow>
            if \<not> hasMember g (sock_user sock)
            then emit (Socket_emit (sock_id sock)) (Error_event ''Not a member of this group'') s
            else emit (Socket_emit (sock_id sock)) (Joined_group gid)
                   (join (sock_id sock) (Group_room gid) s))"

definition leave_group :: "socket \<Rightarrow> obj_id \<Rightarrow> state \<Rightarrow> state" where
  "leave_group sock gid s =
     emit (Socket_emit (sock_id sock)) (Left_group gid) (leave (sock_id sock) (Group_room gid) s)"

text \<open>
  \<^verbatim>\<open>socket.on('notification-read')\<close>:
  \<^verbatim>\<open>Notification.findByIdAndUpdate(notificationId, {isRead: true, readAt: new Date()})\<close>,
  the catch only logs.
\<close>

definition notification_read :: "env \<Rightarrow> socket \<Rightarrow> obj_id \<Rightarrow> state \<Rightarrow> state" where
  "notification_read e sock notificationId s =
     (if fails e Notification_findByIdAndUpdate then s
      else s\<lparr>notifications :=
               map (\<lambda>n. if n_id n = notificationId then n\<lparr>isRead := True, n_readAt := Some (now e)\<rparr> else n)
                 (notifications s)\<rparr>)"

section \<open>A small deployment\<close>

text \<open>
  Three users, alice (1), bob (2) and carol (3). Alice and bob are friends and the members
  of the group \<open>team\<close> (7); all three are members of the group \<open>club\<close> (8).
  The connections are 10 (alice), 20 and 21 (two sessions of bob) and 30 (carol).
\<close>

definition sockA :: socket where
  "sockA = \<lparr>sock_id = 10, sock_user = 1, sock_username = ''alice''\<rparr>"

definition sockB :: socket where
  "sockB = \<lparr>sock_id = 20, sock_user = 2, sock_username = ''bob''\<rparr>"

definition sockB2 :: socket where
  "sockB2 = \<lparr>sock_id = 21, sock_user = 2, sock_username = ''bob''\<rparr>"

definition sockC :: socket where
  "sockC = \<lparr>sock_id = 30, sock_user = 3, sock_username = ''carol''\<rparr>"

text \<open>An environment in which no database call fails, and three with one failing call.\<close>

definition env0 :: env where
  "env0 = \<lparr>now = 100, oid = (\<lambda>k. 1000 + k), fails = (\<lambda>_. False)\<rparr>"

definition env_notification_fails :: env where
  "env_notification_fails = \<lparr>now = 100, oid = (\<lambda>k. 1000 + k), fails = (\<lambda>x. x = Notification_write 2)\<rparr>"



definition team :: groupchat where
  "team = \<lparr>g_id = 7, g_name = ''team'',
            members = [\<lparr>mem_user = 1, mem_role = ''admin''\<rparr>, \<lparr>mem_user = 2, mem_role = ''member''\<rparr>],
            g_lastActivity = 0\<rparr>"

definition club :: groupchat where
  "club = \<lparr>g_id = 8, g_name = ''club'',
            members = [\<lparr>mem_user = 1, mem_role = ''admin''\<rparr>, \<lparr>mem_user = 2, mem_role = ''member''\<rparr>,
                       \<lparr>mem_user = 3, mem_role = ''member''\<rparr>],
            g_lastActivity = 0\<rparr>"

definition accounts :: "user_id \<rightharpoonup> user" where
  "accounts =
     [1 \<mapsto> \<lparr>username = ''alice'', u_status = ''offline'', u_socketId = None, u_lastSeen = 0\<rparr>,
      2 \<mapsto> \<lparr>username = ''bob'', u_status = ''offline'', u_socketId = None, u_lastSeen = 0\<rparr>,
      3 \<mapsto> \<lparr>username = ''carol'', u_status = ''offline'', u_socketId = None, u_lastSeen = 0\<rparr>]"

text \<open>Nobody is connected.\<close>

definition init :: state where
  "init = \<lparr>activeUsers = Map.empty, rooms = (\<lambda>_. {}), users = accounts,
           friendships = [\<lparr>requester = 1, f_recipient = 2, f_status = ''accepted''\<rparr>],
           chats = [], groups = [team, club], messages = [], notifications = [], emitted = []\<rparr>"

text \<open>Alice alone is connected.\<close>

definition alice_online :: state where
  "alice_online =
     init\<lparr>activeUsers := [1 \<mapsto> 10],
          rooms := (\<lambda>_. {})(Socket_room 10 := {10}, User_room 1 := {10}, Group_room 7 := {10},
                              Group_room 8 := {10})\<rparr>"

text \<open>Alice and bob are connected, each in the rooms of the two groups.\<close>

definition both_online :: state where
  "both_online =
     init\<lparr>activeUsers := [1 \<mapsto> 10, 2 \<mapsto> 20],
          rooms := (\<lambda>_. {})(Socket_room 10 := {10}, User_room 1 := {10}, Socket_room 20 := {20},
                              User_room 2 := {20}, Group_room 7 := {10, 20}, Group_room 8 := {10, 20})\<rparr>"

text \<open>
  Bob has connected a second time, as 21, while his session 20 is still open: the entry of
  \<^verbatim>\<open>activeUsers\<close> holds the newer handle, both connections are in the rooms.
\<close>

definition two_sessions :: state where
  "two_sessions =
     init\<lparr>activeUsers := [1 \<mapsto> 10, 2 \<mapsto> 21],
          rooms := (\<lambda>_. {})(Socket_room 10 := {10}, User_room 1 := {10}, Socket_room 20 := {20},
                              Socket_room 21 := {21}, User_room 2 := {20, 21},
                              Group_room 7 := {10, 20, 21}, Group_room 8 := {10, 20, 21})\<rparr>"

text \<open>The message that alice sent to bob in their chat, and the state that holds it.\<close>

definition hello :: message where
  "hello = \<lparr>m_id = 1001, m_sender = 1, m_content = ''hi'', m_chatId = 1000, m_chatType = ''Chat'',
             m_messageType = ''text'', m_mediaUrl = None, readBy = [\<lparr>rr_user = 1, rr_readAt = 100\<rparr>]\<rparr>"

definition hello_note :: notification where
  "hello_note = \<lparr>n_id = 1002, n_recipient = 2, n_sender = 1, n_type = ''message'',
                  n_content = ''alice sent you a message: hi'', relatedChatId = 1000,
                  relatedChatType = ''Chat'', relatedMessageId = 1001, isRead = False, n_readAt = None\<rparr>"

definition chatting :: state where
  "chatting =
     both_online\<lparr>chats := [\<lparr>c_id = 1000, participants = [1, 2], c_lastActivity = 100\<rparr>],
                 messages := [hello], notifications := [hello_note]\<rparr>"

text \<open>Carol is connected as well.\<close>

definition carol_online :: state where
  "carol_online =
     chatting\<lparr>activeUsers := [1 \<mapsto> 10, 2 \<mapsto> 20, 3 \<mapsto> 30],
              rooms := (rooms chatting)(Socket_room 30 := {30}, User_room 3 := {30},
                                        Group_room 8 := {10, 20, 30})\<rparr>"

definition hi :: private_payload where
  "hi = \<lparr>content = Some ''hi'', mediaUrl = None, messageType = None, recipientId = 2\<rparr>"

definition photo :: private_payload where
  "photo = \<lparr>content = None, mediaUrl = Some ''/uploads/p.png'', messageType = Some ''image'',
            recipientId = 2\<rparr>"

text \<open>A media message without text and without type, and one whose text is blank.\<close>

definition untyped :: private_payload where
  "untyped = \<lparr>content = None, mediaUrl = Some ''/uploads/p.png'', messageType = None,
              recipientId = 2\<rparr>"

definition blank :: private_payload where
  "blank = \<lparr>content = Some ''   '', mediaUrl = None, messageType = None, recipientId = 2\<rparr>"

definition essay :: private_payload where
  "essay = \<lparr>content = Some ''The quick brown fox jumps over the lazy dog'', mediaUrl = None,
            messageType = Some ''text'', recipientId = 2\<rparr>"

definition team_hi :: group_payload where
  "team_hi = \<lparr>content = Some ''hi'', mediaUrl = None, messageType = None, groupId = 7\<rparr>"

definition club_hi :: group_payload where
  "club_hi = \<lparr>content = Some ''hi'', mediaUrl = None, messageType = None, groupId = 8\<rparr>"

section \<open>Names for what a handler run produces\<close>

text \<open>The events that a handler run added to the log.\<close>

definition new_events :: "state \<Rightarrow> state \<Rightarrow> (target \<times> event) list" where
  "new_events s s' = drop (length (emitted s)) (emitted s')"

text \<open>The notifications that a handler run added to the collection.\<close>

definition new_notifications :: "state \<Rightarrow> state \<Rightarrow> notification list" where
  "new_notifications s s' = drop (length (notifications s)) (notifications s')"

text \<open>The chat and the message of a run of the private message handler.\<close>

definition private_chat :: "env \<Rightarrow> socket \<Rightarrow> private_payload \<Rightarrow> state \<Rightarrow> chat" where
  "private_chat e sock d s = fst (find_or_create_chat e (sock_user sock) (recipientId d) s)"

definition private_message :: "env \<Rightarrow> socket \<Rightarrow> private_payload \<Rightarrow> state \<Rightarrow> message" where
  "private_message e sock d s =
     new_message e 1 (sock_user sock) (c_id (private_chat e sock d s)) ''Chat'' d"

text \<open>The message of a run of the group message handler.\<close>

definition group_message :: "env \<Rightarrow> socket \<Rightarrow> group_payload \<Rightarrow> message" where
  "group_message e sock d = new_message e 0 (sock_user sock) (groupId d) ''GroupChat'' d"

section \<open>Frame lemmas of the primitive steps\<close>

lemma emit_fields [simp]:
  "activeUsers (emit t ev s) = activeUsers s"
  "rooms (emit t ev s) = rooms s"
  "users (emit t ev s) = users s"
  "friendships (emit t ev s) = friendships s"
  "chats (emit t ev s) = chats s"
  "groups (emit t ev s) = groups s"
  "messages (emit t ev s) = messages s"
  "notifications (emit t ev s) = notifications s"
  "emitted (emit t ev s) = emitted s @ [(t, ev)]"
  by (simp_all add: emit_def)

lemma join_fields [simp]:
  "activeUsers (join sid r s) = activeUsers s"
  "rooms (join sid r s) = (rooms s)(r := insert sid (rooms s r))"
  "users (join sid r s) = users s"
  "friendships (join sid r s) = friendships s"
  "chats (join sid r s) = chats s"
  "groups (join sid r s) = groups s"
  "messages (join sid r s) = messages s"
  "notifications (join sid r s) = notifications s"
  "emitted (join sid r s) = emitted s"
  by (simp_all add: join_def)

lemma leave_fields [simp]:
  "activeUsers (leave sid r s) = activeUsers s"
  "rooms (leave sid r s) = (rooms s)(r := rooms s r - {sid})"
  "users (leave sid r s) = users s"
  "friendships (leave sid r s) = friendships s"
  "chats (leave sid r s) = chats s"
  "groups (leave sid r s) = groups s"
  "messages (leave sid r s) = messages s"
  "notifications (leave sid r s) = notifications s"
  "emitted (leave sid r s) = emitted s"
  by (simp_all add: leave_def)

lemma user_update_fields [simp]:
  "activeUsers (user_update uid f s) = activeUsers s"
  "rooms (user_update uid f s) = rooms s"
  "users (user_update uid f s) = (users s)(uid := map_option f (users s uid))"
  "friendships (user_update uid f s) = friendships s"
  "chats (user_update uid f s) = chats s"
  "groups (user_update uid f s) = groups s"
  "messages (user_update uid f s) = messages s"
  "notifications (user_update uid f s) = notifications s"
  "emitted (user_update uid f s) = emitted s"
  by (simp_all add: user_update_def)

lemma emit_to_friends_fields [simp]:
  "activeUsers (emit_to_friends fs ev s) = activeUsers s"
  "rooms (emit_to_friends fs ev s) = rooms s"
  "users (emit_to_friends fs ev s) = users s"
  "friendships (emit_to_friends fs ev s) = friendships s"
  "chats (emit_to_friends fs ev s) = chats s"
  "groups (emit_to_friends fs ev s) = groups s"
  "messages (emit_to_friends fs ev s) = messages s"
  "notifications (emit_to_friends fs ev s) = notifications s"
  by (induction fs arbitrary: s; simp split: option.split)+

lemma emitted_emit_to_friends:
  "emitted (emit_to_friends fs ev s) =
     emitted s @ map (\<lambda>sid. (Io_to (Socket_room sid), ev)) (List.map_filter (activeUsers s) fs)"
  by (induction fs arbitrary: s) (simp_all add: List.map_filter_simps split: option.split)

lemma join_groups_fields [simp]:
  "activeUsers (join_groups sid gs s) = activeUsers s"
  "users (join_groups sid gs s) = users s"
  "friendships (join_groups sid gs s) = friendships s"
  "chats (join_groups sid gs s) = chats s"
  "groups (join_groups sid gs s) = groups s"
  "messages (join_groups sid gs s) = messages s"
  "notifications (join_groups sid gs s) = notifications s"
  "emitted (join_groups sid gs s) = emitted s"
  by (induction gs arbitrary: s; simp)+

lemma activeUsers_connection:
  "activeUsers (connection e sock s) =
     (if fails e User_findByIdAndUpdate then activeUsers s
      else (activeUsers s)(sock_user sock \<mapsto> sock_id sock))"
  by (simp add: connection_def Let_def)

lemma activeUsers_disconnect:
  "activeUsers (disconnect e sock s) =
     (if fails e User_findByIdAndUpdate then activeUsers s
      else (activeUsers s)(sock_user sock := None))"
  by (simp add: disconnect_def Let_def)

lemma new_events_append: "emitted s' = emitted s @ xs \<Longrightarrow> new_events s s' = xs"
  by (simp add: new_events_def)

lemma new_notifications_append:
  "notifications s' = notifications s @ xs \<Longrightarrow> new_notifications s s' = xs"
  by (simp add: new_notifications_def)

section \<open>Trimming\<close>

lemma trim_examples [simp]:
  "trim [] = []" "trim ''hi'' = ''hi''" "trim ''   '' = []"
  by (simp_all add: trim_def is_space_def)

section \<open>The private message handler, field by field\<close>

lemma find_or_create_chat_fields [simp]:
  "activeUsers (snd (find_or_create_chat e a b s)) = activeUsers s"
  "rooms (snd (find_or_create_chat e a b s)) = rooms s"
  "users (snd (find_or_create_chat e a b s)) = users s"
  "friendships (snd (find_or_create_chat e a b s)) = friendships s"
  "groups (snd (find_or_create_chat e a b s)) = groups s"
  "messages (snd (find_or_create_chat e a b s)) = messages s"
  "notifications (snd (find_or_create_chat e a b s)) = notifications s"
  "emitted (snd (find_or_create_chat e a b s)) = emitted s"
  by (simp_all add: find_or_create_chat_def Let_def split: option.split)

lemma send_failed_fields [simp]:
  "activeUsers (send_failed sock s) = activeUsers s"
  "rooms (send_failed sock s) = rooms s"
  "users (send_failed sock s) = users s"
  "friendships (send_failed sock s) = friendships s"
  "chats (send_failed sock s) = chats s"
  "groups (send_failed sock s) = groups s"
  "messages (send_failed sock s) = messages s"
  "notifications (send_failed sock s) = notifications s"
  "emitted (send_failed sock s) =
     emitted s @ [(Socket_emit (sock_id sock), Message_error ''Failed to send message'')]"
  by (simp_all add: send_failed_def)

lemma private_frame:
  "activeUsers (send_private_message e sock d s) = activeUsers s"
  "rooms (send_private_message e sock d s) = rooms s"
  by (simp_all add: send_private_message_def Let_def case_prod_beta split: option.split)

lemma private_messages:
  "messages (send_private_message e sock d s) =
     (if fails e Chat_findOne \<or> fails e Chat_save \<or> fails e Message_save then messages s
      else messages s @ [private_message e sock d s])"
  by (simp add: send_private_message_def private_message_def private_chat_def Let_def
      case_prod_beta split: option.split)

lemma private_notifications:
  "notifications (send_private_message e sock d s) =
     (if fails e Chat_findOne \<or> fails e Chat_save \<or> fails e Message_save \<or> fails e Message_populate
         \<or> activeUsers s (recipientId d) \<noteq> None \<or> fails e (Notification_write (recipientId d))
      then notifications s
      else notifications s @
             [private_notification e sock d (private_chat e sock d s) (private_message e sock d s)])"
  by (simp add: send_private_message_def private_message_def private_chat_def Let_def
      case_prod_beta split: option.split)

lemma private_emitted:
  "emitted (send_private_message e sock d s) =
     emitted s @
     (if fails e Chat_findOne \<or> fails e Chat_save \<or> fails e Message_save \<or> fails e Message_populate
      then [(Socket_emit (sock_id sock), Message_error ''Failed to send message'')]
      else
        case activeUsers s (recipientId d) of
          Some r \<Rightarrow>
            [(Io_to (Socket_room r),
              Receive_private_message (private_message e sock d s) (c_id (private_chat e sock d s))
                (participants (private_chat e sock d s))),
             (Socket_emit (sock_id sock),
              Private_message_sent (private_message e sock d s) (c_id (private_chat e sock d s)))]
        | None \<Rightarrow>
            if fails e (Notification_write (recipientId d))
            then [(Socket_emit (sock_id sock), Message_error ''Failed to send message'')]
            else [(Socket_emit (sock_id sock),
                   Private_message_sent (private_message e sock d s) (c_id (private_chat e sock d s)))])"
  by (simp add: send_private_message_def private_message_def private_chat_def Let_def
      case_prod_beta split: option.split)

lemma private_chats:
  "chats (send_private_message e sock d s) =
     (if fails e Chat_findOne \<or> fails e Chat_save then chats s
      else chats (snd (find_or_create_chat e (sock_user sock) (recipientId d) s)))"
  by (simp add: send_private_message_def Let_def case_prod_beta split: option.split)

lemma find_chat_Some:
  "find_chat a b cs = Some c \<Longrightarrow> c \<in> set cs \<and> a \<in> set (participants c) \<and> b \<in> set (participants c)"
  by (auto simp: find_chat_def find_Some_iff)

lemma sender_in_private_chat: "sock_user sock \<in> set (participants (private_chat e sock d s))"
  by (auto simp: private_chat_def find_or_create_chat_def Let_def split: option.split
      dest: find_chat_Some)

lemma recipient_in_private_chat: "recipientId d \<in> set (participants (private_chat e sock d s))"
  by (auto simp: private_chat_def find_or_create_chat_def Let_def split: option.split
      dest: find_chat_Some)

text \<open>
  When no database call fails, the private handler decides both halves of the fanout from
  the one lookup in \<^verbatim>\<open>activeUsers\<close>: the live event and no notification for a
  recipient with an entry, one notification and no live event for a recipient without.
\<close>

lemma private_fanout_exclusive:
  assumes "\<not> fails e Chat_findOne" and "\<not> fails e Chat_save" and "\<not> fails e Message_save"
    and "\<not> fails e Message_populate" and "\<not> fails e (Notification_write (recipientId d))"
  shows "case activeUsers s (recipientId d) of
           Some r \<Rightarrow>
             new_events s (send_private_message e sock d s) =
               [(Io_to (Socket_room r),
                 Receive_private_message (private_message e sock d s) (c_id (private_chat e sock d s))
                   (participants (private_chat e sock d s))),
                (Socket_emit (sock_id sock),
                 Private_message_sent (private_message e sock d s) (c_id (private_chat e sock d s)))]
             \<and> new_notifications s (send_private_message e sock d s) = []
         | None \<Rightarrow>
             new_events s (send_private_message e sock d s) =
               [(Socket_emit (sock_id sock),
                 Private_message_sent (private_message e sock d s) (c_id (private_chat e sock d s)))]
             \<and> map n_recipient (new_notifications s (send_private_message e sock d s)) = [recipientId d]"
  using assms
  by (simp add: new_events_def new_notifications_def private_emitted private_notifications
      private_notification_def split: option.split)

section \<open>Writing several notifications\<close>

lemma takeWhile_short: "length (takeWhile P xs) < length xs \<longleftrightarrow> \<not> list_all P xs"
  by (induction xs) simp_all

lemma takeWhile_all: "list_all P xs \<Longrightarrow> takeWhile P xs = xs"
  by (induction xs) simp_all

lemma insertMany_cases:
  "insertMany e ns s =
     (if list_all (\<lambda>n. \<not> fails e (Notification_write (n_recipient n))) ns
      then Inr (s\<lparr>notifications := notifications s @ ns\<rparr>)
      else Inl (s\<lparr>notifications := notifications s @
                  takeWhile (\<lambda>n. \<not> fails e (Notification_write (n_recipient n))) ns\<rparr>))"
  by (simp add: insertMany_def Let_def takeWhile_short takeWhile_all)

section \<open>The group message handler, field by field\<close>

lemma group_frame:
  "activeUsers (send_group_message e sock d s) = activeUsers s"
  "rooms (send_group_message e sock d s) = rooms s"
  by (simp_all add: send_group_message_def Let_def insertMany_cases split: option.split)

lemma group_rejects:
  assumes "\<not> fails e GroupChat_findById"
  shows "find (\<lambda>g. g_id g = groupId d) (groups s) = None \<Longrightarrow>
           send_group_message e sock d s =
             emit (Socket_emit (sock_id sock)) (Message_error ''Group not found'') s"
    and "find (\<lambda>g. g_id g = groupId d) (groups s) = Some g \<Longrightarrow> \<not> hasMember g (sock_user sock) \<Longrightarrow>
           send_group_message e sock d s =
             emit (Socket_emit (sock_id sock)) (Message_error ''Not a member of this group'') s"
  using assms by (simp_all add: send_group_message_def)

lemma group_messages:
  assumes "find (\<lambda>g. g_id g = groupId d) (groups s) = Some g" and "hasMember g (sock_user sock)"
  shows "messages (send_group_message e sock d s) =
     (if fails e GroupChat_findById \<or> fails e GroupChat_save \<or> fails e Message_save then messages s
      else messages s @ [group_message e sock d])"
  using assms
  by (simp add: send_group_message_def group_message_def Let_def insertMany_cases)

lemma group_notifications:
  assumes "find (\<lambda>g. g_id g = groupId d) (groups s) = Some g" and "hasMember g (sock_user sock)"
  shows "notifications (send_group_message e sock d s) =
     (if fails e GroupChat_findById \<or> fails e GroupChat_save \<or> fails e Message_save \<or> fails e Message_populate
      then notifications s
      else notifications s @
             takeWhile (\<lambda>n. \<not> fails e (Notification_write (n_recipient n)))
               (map (group_notification e sock d g (group_message e sock d))
                  (enumerate 0 (offlineMembers s (sock_user sock) g))))"
  using assms
  by (simp add: send_group_message_def group_message_def Let_def insertMany_cases takeWhile_all
      offlineMembers_def)

lemma n_recipient_group_notification [simp]:
  "n_recipient (group_notification e sock d g msg im) = snd im"
  by (simp add: group_notification_def)

lemma list_all_snd_enumerate: "list_all (\<lambda>im. P (snd im)) (enumerate n xs) = list_all P xs"
  by (induction xs arbitrary: n) simp_all

lemma group_writes_all:
  "list_all (\<lambda>n. \<not> fails e (Notification_write (n_recipient n)))
     (map (group_notification e sock d g msg) (enumerate 0 off)) =
   list_all (\<lambda>u. \<not> fails e (Notification_write u)) off"
  using list_all_snd_enumerate [of "\<lambda>u. \<not> fails e (Notification_write u)" 0 off]
  by (simp add: list.pred_map comp_def)

lemma takeWhile_snd_enumerate:
  "map snd (takeWhile (\<lambda>im. P (snd im)) (enumerate n xs)) = takeWhile P xs"
  by (induction xs arbitrary: n) simp_all

lemma group_written_recipients:
  "map n_recipient
     (takeWhile (\<lambda>n. \<not> fails e (Notification_write (n_recipient n)))
        (map (group_notification e sock d g msg) (enumerate 0 off))) =
   takeWhile (\<lambda>u. \<not> fails e (Notification_write u)) off"
  using takeWhile_snd_enumerate [of "\<lambda>u. \<not> fails e (Notification_write u)" 0 off]
  by (simp add: takeWhile_map comp_def)

lemma group_emitted:
  assumes "find (\<lambda>g. g_id g = groupId d) (groups s) = Some g" and "hasMember g (sock_user sock)"
  shows "emitted (send_group_message e sock d s) =
     emitted s @
     (if fails e GroupChat_findById \<or> fails e GroupChat_save \<or> fails e Message_save \<or> fails e Message_populate
      then [(Socket_emit (sock_id sock), Message_error ''Failed to send message'')]
      else
        [(Io_to (Group_room (groupId d)), Receive_group_message (group_message e sock d) (g_id g) (g_name g)),
         (Socket_emit (sock_id sock),
          if list_all (\<lambda>u. \<not> fails e (Notification_write u)) (offlineMembers s (sock_user sock) g)
          then Group_message_sent (group_message e sock d) (groupId d)
          else Message_error ''Failed to send message'')])"
  using assms
  by (simp add: send_group_message_def group_message_def Let_def insertMany_cases
      offlineMembers_def group_writes_all)

section \<open>The deployment, evaluated\<close>

lemma private_chat_alice_online:
  "private_chat e sockA hi alice_online = \<lparr>c_id = oid e 0, participants = [1, 2], c_lastActivity = now e\<rparr>"
  by (simp add: private_chat_def find_or_create_chat_def find_chat_def alice_online_def init_def
      sockA_def hi_def Let_def)

lemma offline_club_alice_online: "offlineMembers alice_online (sock_user sockA) club = [2, 3]"
  by (simp add: offlineMembers_def alice_online_def init_def sockA_def club_def)

lemma find_club:
  "find (\<lambda>g. g_id g = groupId club_hi) (groups alice_online) = Some club"
  "find (\<lambda>g. g_id g = groupId club_hi) (groups both_online) = Some club"
  by (simp_all add: alice_online_def both_online_def init_def club_hi_def team_def club_def)

lemma find_team:
  "find (\<lambda>g. g_id g = groupId team_hi) (groups alice_online) = Some team"
  "find (\<lambda>g. g_id g = groupId team_hi) (groups both_online) = Some team"
  "find (\<lambda>g. g_id g = groupId team_hi) (groups carol_online) = Some team"
  by (simp_all add: alice_online_def both_online_def carol_online_def chatting_def init_def
      team_hi_def team_def club_def)

lemma members_of_groups:
  "hasMember club (sock_user sockA)" "hasMember team (sock_user sockA)"
  "\<not> hasMember team (sock_user sockC)"
  by (simp_all add: hasMember_def club_def team_def sockA_def sockC_def)

lemma find_hello: "find (\<lambda>m. m_id m = 1001) (messages carol_online) = Some hello"
  "find (\<lambda>m. m_id m = 1001) (messages chatting) = Some hello"
  by (simp_all add: carol_online_def chatting_def hello_def)

lemma disconnect_fields:
  "rooms (disconnect e sock s) = (\<lambda>r. rooms s r - {sock_id sock})"
  "groups (disconnect e sock s) = groups s"
  "notifications (disconnect e sock s) = notifications s"
  by (simp_all add: disconnect_def Let_def)

lemma leave_group_fields:
  "rooms (leave_group sock gid s) = (rooms s)(Group_room gid := rooms s (Group_room gid) - {sock_id sock})"
  "activeUsers (leave_group sock gid s) = activeUsers s"
  "groups (leave_group sock gid s) = groups s"
  "notifications (leave_group sock gid s) = notifications s"
  by (simp_all add: leave_group_def)

section \<open>Read receipts\<close>

lemma find_map_same_id:
  assumes "\<And>m. m_id (f m) = m_id m"
  shows "find (\<lambda>m. m_id m = i) (map (\<lambda>m. if m_id m = i then f m else m) ms) =
         map_option f (find (\<lambda>m. m_id m = i) ms)"
  using assms by (induction ms) simp_all

lemma filter_none: "\<not> list_ex P xs \<Longrightarrow> filter P xs = []"
  by (induction xs) simp_all

lemma filter_some: "list_ex P xs \<Longrightarrow> 1 \<le> length (filter P xs)"
  by (induction xs) auto

lemmas mark_as_read_defs =
  mark_as_read_def findById_message_def mark_as_read_resume_def mark_as_read_loaded_def
  mark_as_read_saved_def

lemma mark_as_read_already:
  assumes "find (\<lambda>m. m_id m = mid) (messages s) = Some msg"
    and "list_ex (\<lambda>r. rr_user r = sock_user sock) (readBy msg)"
  shows "mark_as_read e sock mid s = s"
  using assms by (simp add: mark_as_read_defs Let_def)

lemma mark_as_read_messages:
  assumes "find (\<lambda>m. m_id m = mid) (messages s) = Some msg"
    and "\<not> list_ex (\<lambda>r. rr_user r = sock_user sock) (readBy msg)"
    and "\<not> fails e Message_findById" and "\<not> fails e Message_save"
  shows "messages (mark_as_read e sock mid s) =
           map (\<lambda>m. if m_id m = mid
                     then m\<lparr>readBy := readBy m @ [\<lparr>rr_user = sock_user sock, rr_readAt = now e\<rparr>]\<rparr>
                     else m) (messages s)"
  using assms by (simp add: mark_as_read_defs Let_def split: option.split)

section \<open>Notification texts\<close>

lemma preview_cases: "preview c = (if length c \<le> 30 then c else take 30 c @ ''...'')"
  by (simp add: preview_def)

lemma private_content_text:
  "c \<noteq> [] \<Longrightarrow> private_notification_content u (Some c) mt =
     u @ '' sent you a message: '' @ (if length c \<le> 30 then c else take 30 c @ ''...'')"
  by (simp add: private_notification_content_def preview_cases)

lemma private_content_type:
  "c = None \<or> c = Some [] \<Longrightarrow> private_notification_content u c mt = u @ '' sent you a '' @ template mt"
  by (auto simp: private_notification_content_def)

lemma group_content_text:
  "c \<noteq> [] \<Longrightarrow> group_notification_content u g (Some c) mt =
     u @ '' sent a message in '' @ g @ '': '' @ (if length c \<le> 30 then c else take 30 c @ ''...'')"
  by (simp add: group_notification_content_def preview_cases)

lemma group_content_type:
  "c = None \<or> c = Some [] \<Longrightarrow>
     group_notification_content u g c mt = u @ '' sent a '' @ template mt @ '' in '' @ g"
  by (auto simp: group_notification_content_def)

lemma private_new_notifications:
  "n \<in> set (new_notifications s (send_private_message e sock d s)) \<Longrightarrow>
     n_content n = private_notification_content (sock_username sock) (content d) (messageType d)"
  by (simp add: new_notifications_def private_notifications private_notification_def
      split: if_splits)

lemma group_new_notifications:
  assumes "find (\<lambda>g. g_id g = groupId d) (groups s) = Some g"
    and "n \<in> set (new_notifications s (send_group_message e sock d s))"
  shows "n_content n =
     group_notification_content (sock_username sock) (g_name g) (content d) (messageType d)"
proof (cases "hasMember g (sock_user sock)")
  case True
  from assms(2) have "n \<in> set (map (group_notification e sock d g (group_message e sock d))
                  (enumerate 0 (offlineMembers s (sock_user sock) g)))"
    by (auto simp: new_notifications_def group_notifications [OF assms(1) True]
        split: if_splits dest: set_takeWhileD)
  then show ?thesis by (auto simp: group_notification_def)
next
  case False
  have "notifications (send_group_message e sock d s) = notifications s"
    using assms(1) False by (simp add: send_group_message_def Let_def)
  with assms(2) show ?thesis by (simp add: new_notifications_def)
qed

lemma alice_online_private:
  assumes "recipientId p = 2"
  shows "new_notifications alice_online (send_private_message env0 sockA p alice_online) =
           [private_notification env0 sockA p (private_chat env0 sockA p alice_online)
              (private_message env0 sockA p alice_online)]"
  using assms
  by (intro new_notifications_append)
     (simp add: private_notifications env0_def alice_online_def init_def)

lemma alice_online_club:
  "new_notifications alice_online (send_group_message env0 sockA club_hi alice_online) =
     map (group_notification env0 sockA club_hi club (group_message env0 sockA club_hi)) [(0, 2), (1, 3)]"
  by (intro new_notifications_append)
     (simp add: group_notifications [OF find_club(1) members_of_groups(1)] offline_club_alice_online
        env0_def)

section \<open>The status handler\<close>

lemma set_status_frame:
  "activeUsers (set_status e sock st s) = activeUsers s"
  "rooms (set_status e sock st s) = rooms s"
  "friendships (set_status e sock st s) = friendships s"
  "chats (set_status e sock st s) = chats s"
  "groups (set_status e sock st s) = groups s"
  "messages (set_status e sock st s) = messages s"
  "notifications (set_status e sock st s) = notifications s"
  by (simp_all add: set_status_def Let_def)

lemma set_status_users:
  "u \<noteq> sock_user sock \<Longrightarrow> users (set_status e sock st s) u = users s u"
  "map_option username (users (set_status e sock st s) u) = map_option username (users s u)"
  "map_option u_socketId (users (set_status e sock st s) u) = map_option u_socketId (users s u)"
  by (simp_all add: set_status_def Let_def option.map_comp comp_def)

lemma set_status_events:
  "set (map snd (new_events s (set_status e sock st s))) \<subseteq>
     {User_status_change (sock_user sock) (sock_username sock) st
        (if st = ''offline'' then Some (now e) else None),
      Error_event ''Invalid status''}"
  by (auto simp: new_events_def set_status_def Let_def emitted_emit_to_friends)

section \<open>Claim C1: the two halves of the group fanout use different tables\<close>

text \<open>
  Claim C1 fails in the group handler, which sends the live event to the connections
  in the room of the group and writes notifications for the members without an entry in
  \<^verbatim>\<open>activeUsers\<close>. Bob, a member of the group and not the sender, is connected and
  has an entry, but has left the room: he gets neither the event nor a notification.
  With two sessions of which the older one has disconnected, bob has no entry while his
  connection 21 is still in the room: he gets the event and a notification.
\<close>

theorem group_fanout_neither_or_both:
  "hasMember team 2 \<and> sock_user sockA = 1
   \<and> activeUsers (leave_group sockB 7 both_online) 2 = Some 20
   \<and> delivered (send_group_message env0 sockA team_hi (leave_group sockB 7 both_online)) 20
        (new_events (leave_group sockB 7 both_online)
           (send_group_message env0 sockA team_hi (leave_group sockB 7 both_online))) = []
   \<and> new_notifications (leave_group sockB 7 both_online)
        (send_group_message env0 sockA team_hi (leave_group sockB 7 both_online)) = []
   \<and> activeUsers (disconnect env0 sockB two_sessions) 2 = None
   \<and> delivered (send_group_message env0 sockA team_hi (disconnect env0 sockB two_sessions)) 21
        (new_events (disconnect env0 sockB two_sessions)
           (send_group_message env0 sockA team_hi (disconnect env0 sockB two_sessions))) =
       [Receive_group_message (group_message env0 sockA team_hi) 7 ''team'']
   \<and> map n_recipient
        (new_notifications (disconnect env0 sockB two_sessions)
           (send_group_message env0 sockA team_hi (disconnect env0 sockB two_sessions))) = [2]"
proof -
  let ?s = "leave_group sockB 7 both_online"
  let ?t = "disconnect env0 sockB two_sessions"
  have fs: "find (\<lambda>g. g_id g = groupId team_hi) (groups ?s) = Some team"
    using find_team(2) by (simp add: leave_group_fields)
  have ft: "find (\<lambda>g. g_id g = groupId team_hi) (groups ?t) = Some team"
    by (simp add: disconnect_fields two_sessions_def init_def team_hi_def team_def)
  have nf: "\<not> fails env0 x" for x by (simp add: env0_def)
  have c: "g_id team = 7" "g_name team = ''team''" "groupId team_hi = 7" "sock_id sockA = 10"
    by (simp_all add: team_def team_hi_def sockA_def)
  have as: "activeUsers ?s 2 = Some 20"
    by (simp add: leave_group_fields both_online_def init_def)
  have at: "activeUsers ?t 2 = None"
    by (simp add: activeUsers_disconnect nf sockB_def)
  have os: "offlineMembers ?s (sock_user sockA) team = []"
    by (simp add: offlineMembers_def leave_group_fields both_online_def init_def team_def sockA_def)
  have ot: "offlineMembers ?t (sock_user sockA) team = [2]"
    by (simp add: offlineMembers_def activeUsers_disconnect nf sockB_def sockA_def team_def
        two_sessions_def init_def)
  have es: "new_events ?s (send_group_message env0 sockA team_hi ?s) =
      [(Io_to (Group_room 7), Receive_group_message (group_message env0 sockA team_hi) 7 ''team''),
       (Socket_emit 10, Group_message_sent (group_message env0 sockA team_hi) 7)]"
    by (intro new_events_append)
       (simp add: group_emitted [OF fs members_of_groups(2)] nf os c)
  have et: "new_events ?t (send_group_message env0 sockA team_hi ?t) =
      [(Io_to (Group_room 7), Receive_group_message (group_message env0 sockA team_hi) 7 ''team''),
       (Socket_emit 10, Group_message_sent (group_message env0 sockA team_hi) 7)]"
    by (intro new_events_append)
       (simp add: group_emitted [OF ft members_of_groups(2)] nf ot c)
  have ds: "delivered (send_group_message env0 sockA team_hi ?s) 20
              (new_events ?s (send_group_message env0 sockA team_hi ?s)) = []"
    unfolding es
    by (simp add: delivered_def group_frame leave_group_fields sockB_def both_online_def init_def)
  have dt: "delivered (send_group_message env0 sockA team_hi ?t) 21
              (new_events ?t (send_group_message env0 sockA team_hi ?t)) =
            [Receive_group_message (group_message env0 sockA team_hi) 7 ''team'']"
    unfolding et
    by (simp add: delivered_def group_frame disconnect_fields sockB_def two_sessions_def init_def)
  have ns: "new_notifications ?s (send_group_message env0 sockA team_hi ?s) = []"
    by (intro new_notifications_append)
       (simp add: group_notifications [OF fs members_of_groups(2)] nf os)
  have "new_notifications ?t (send_group_message env0 sockA team_hi ?t) =
          takeWhile (\<lambda>n. \<not> fails env0 (Notification_write (n_recipient n)))
            (map (group_notification env0 sockA team_hi team (group_message env0 sockA team_hi))
               (enumerate 0 (offlineMembers ?t (sock_user sockA) team)))"
    by (intro new_notifications_append)
       (simp add: group_notifications [OF ft members_of_groups(2)] nf)
  then have nt: "map n_recipient (new_notifications ?t (send_group_message env0 sockA team_hi ?t)) = [2]"
    by (simp add: group_written_recipients ot nf)
  have "hasMember team 2" "sock_user sockA = 1"
    by (simp_all add: hasMember_def team_def sockA_def)
  with as at ds dt ns nt show ?thesis by simp
qed

section \<open>Claim C2: the entry is removed by user id, without a handle check\<close>

text \<open>
  Claim C2, as the code has it: when the status update of the disconnect handler succeeds,
  the entry of the disconnecting connection's user is removed from \<^verbatim>\<open>activeUsers\<close>
  whatever connection id is stored in it; when the update fails the map is left as it was;
  the entries of other users are never touched. The code compares no handles.
\<close>

theorem disconnect_deletes_by_user:
  "(\<not> fails e User_findByIdAndUpdate \<longrightarrow> activeUsers (disconnect e sock s) (sock_user sock) = None)
   \<and> (fails e User_findByIdAndUpdate \<longrightarrow> activeUsers (disconnect e sock s) = activeUsers s)
   \<and> (\<forall>u. u \<noteq> sock_user sock \<longrightarrow> activeUsers (disconnect e sock s) u = activeUsers s u)"
  by (simp add: activeUsers_disconnect)

theorem disconnect_deletes_by_user_witness:
  "\<not> fails env0 User_findByIdAndUpdate
   \<and> activeUsers both_online (sock_user sockB2) = Some 20
   \<and> sock_id sockB2 = 21
   \<and> activeUsers (disconnect env0 sockB2 both_online) (sock_user sockB2) = None
   \<and> activeUsers (disconnect env0 sockB2 both_online) 1 = activeUsers both_online 1"
  using disconnect_deletes_by_user [of env0 sockB2 both_online]
  by (simp add: env0_def sockB2_def both_online_def init_def)

text \<open>
  The claim as stated fails: bob connects as 20 and again as 21, so that 21 is the stored
  handle; the late disconnect of session 20 removes the entry of session 21.
\<close>

theorem stale_disconnect_counterexample:
  "activeUsers (connection env0 sockB2 (connection env0 sockB init)) 2 = Some 21
   \<and> sock_id sockB = 20
   \<and> activeUsers (disconnect env0 sockB (connection env0 sockB2 (connection env0 sockB init))) 2 = None"
  by (simp add: activeUsers_connection activeUsers_disconnect env0_def sockB_def sockB2_def)

section \<open>Claim C3: the group message handler checks membership, the typing handler does not\<close>

text \<open>
  Claim C3, as the code has it. A user who is not a member of a group and sends a group
  message to it gets \<^verbatim>\<open>message-error\<close> (Not a member of this group), and nothing
  else happens: no write, no delivery. A private message names a recipient, not a chat:
  it is filed under the chat found or created for sender and recipient, and the sender is
  a participant of that chat. The handler of \<^verbatim>\<open>typing-start\<close> rejects nobody and
  reports no error: for a group the typing event goes to the room of the group whoever the
  caller is, for a chat it goes to the first participant other than the caller who is
  connected, whether or not the caller is a participant.
\<close>

theorem group_send_checks_typing_does_not:
  "(\<not> fails e GroupChat_findById \<and> find (\<lambda>g. g_id g = groupId gd) (groups s) = Some g
      \<and> \<not> hasMember g (sock_user sock) \<longrightarrow>
      send_group_message e sock gd s =
        s\<lparr>emitted := emitted s @
            [(Socket_emit (sock_id sock), Message_error ''Not a member of this group'')]\<rparr>)
   \<and> sock_user sock \<in> set (participants (private_chat e sock d s))
   \<and> recipientId d \<in> set (participants (private_chat e sock d s))
   \<and> m_chatId (private_message e sock d s) = c_id (private_chat e sock d s)
   \<and> (messages (send_private_message e sock d s) = messages s
        \<or> messages (send_private_message e sock d s) = messages s @ [private_message e sock d s])
   \<and> typing_start e sock cid ''GroupChat'' s =
       emit (Socket_to (sock_id sock) (Group_room cid))
         (Typing cid (sock_user sock) (sock_username sock)) s
   \<and> (\<not> fails e Chat_findById \<and> find (\<lambda>c. c_id c = cid) (chats s) = Some ch
        \<and> find (\<lambda>i. i \<noteq> sock_user sock) (participants ch) = Some other
        \<and> activeUsers s other = Some r \<longrightarrow>
      typing_start e sock cid ''Chat'' s =
        emit (Io_to (Socket_room r)) (Typing cid (sock_user sock) (sock_username sock)) s)
   \<and> (typing_start e sock cid ct s = s
        \<or> (\<exists>t. typing_start e sock cid ct s =
                  emit t (Typing cid (sock_user sock) (sock_username sock)) s))"
proof (intro conjI impI)
  assume "\<not> fails e GroupChat_findById \<and> find (\<lambda>g. g_id g = groupId gd) (groups s) = Some g
      \<and> \<not> hasMember g (sock_user sock)"
  then show "send_group_message e sock gd s =
        s\<lparr>emitted := emitted s @
            [(Socket_emit (sock_id sock), Message_error ''Not a member of this group'')]\<rparr>"
    by (simp add: group_rejects(2) emit_def)
next
  show "sock_user sock \<in> set (participants (private_chat e sock d s))"
    by (rule sender_in_private_chat)
next
  show "recipientId d \<in> set (participants (private_chat e sock d s))"
    by (rule recipient_in_private_chat)
next
  show "m_chatId (private_message e sock d s) = c_id (private_chat e sock d s)"
    by (simp add: private_message_def new_message_def)
next
  show "messages (send_private_message e sock d s) = messages s
        \<or> messages (send_private_message e sock d s) = messages s @ [private_message e sock d s]"
    by (simp add: private_messages)
next
  show "typing_start e sock cid ''GroupChat'' s =
       emit (Socket_to (sock_id sock) (Group_room cid))
         (Typing cid (sock_user sock) (sock_username sock)) s"
    by (simp add: typing_start_def)
next
  assume "\<not> fails e Chat_findById \<and> find (\<lambda>c. c_id c = cid) (chats s) = Some ch
        \<and> find (\<lambda>i. i \<noteq> sock_user sock) (participants ch) = Some other
        \<and> activeUsers s other = Some r"
  then show "typing_start e sock cid ''Chat'' s =
        emit (Io_to (Socket_room r)) (Typing cid (sock_user sock) (sock_username sock)) s"
    by (simp add: typing_start_def)
next
  show "typing_start e sock cid ct s = s
        \<or> (\<exists>t. typing_start e sock cid ct s =
                  emit t (Typing cid (sock_user sock) (sock_username sock)) s)"
    by (auto simp: typing_start_def split: option.split)
qed

theorem group_send_checks_typing_does_not_witness:
  "\<not> fails env0 GroupChat_findById
   \<and> find (\<lambda>g. g_id g = groupId team_hi) (groups carol_online) = Some team
   \<and> \<not> hasMember team (sock_user sockC)
   \<and> new_events carol_online (send_group_message env0 sockC team_hi carol_online) =
       [(Socket_emit 30, Message_error ''Not a member of this group'')]
   \<and> messages (send_group_message env0 sockC team_hi carol_online) = messages carol_online
   \<and> notifications (send_group_message env0 sockC team_hi carol_online) = notifications carol_online
   \<and> \<not> fails env0 Chat_findById
   \<and> find (\<lambda>c. c_id c = 1000) (chats carol_online) =
       Some \<lparr>c_id = 1000, participants = [1, 2], c_lastActivity = 100\<rparr>
   \<and> sock_user sockC = 3
   \<and> activeUsers carol_online 1 = Some 10
   \<and> new_events carol_online (typing_start env0 sockC 1000 ''Chat'' carol_online) =
       [(Io_to (Socket_room 10), Typing 1000 3 ''carol'')]"
proof -
  let ?ch = "\<lparr>c_id = 1000, participants = [1, 2], c_lastActivity = 100\<rparr> :: chat"
  have a: "\<not> fails env0 GroupChat_findById" "\<not> fails env0 Chat_findById"
    by (simp_all add: env0_def)
  have c: "find (\<lambda>c. c_id c = 1000) (chats carol_online) = Some ?ch"
    "find (\<lambda>i. i \<noteq> sock_user sockC) (participants ?ch) = Some 1"
    "activeUsers carol_online 1 = Some 10" "sock_user sockC = 3"
    by (simp_all add: carol_online_def chatting_def sockC_def)
  note t = group_send_checks_typing_does_not
    [of env0 team_hi carol_online team sockC hi 1000 ?ch 1 10 "''Chat''"]
  have "send_group_message env0 sockC team_hi carol_online =
      carol_online\<lparr>emitted := emitted carol_online @
            [(Socket_emit (sock_id sockC), Message_error ''Not a member of this group'')]\<rparr>"
    using t a find_team(3) members_of_groups(3) by blast
  moreover have "typing_start env0 sockC 1000 ''Chat'' carol_online =
      emit (Io_to (Socket_room 10)) (Typing 1000 (sock_user sockC) (sock_username sockC)) carol_online"
    using t a c by blast
  ultimately show ?thesis
    using a c find_team(3) members_of_groups(3) by (simp add: new_events_def sockC_def)
qed

text \<open>
  The claim as stated fails: carol is not a member of the group \<open>team\<close>, yet her
  \<^verbatim>\<open>typing-start\<close> for it reaches the connections of alice and bob in the room of the
  group, and her own connection gets no error.
\<close>

theorem outsider_typing_counterexample:
  "find (\<lambda>g. g_id g = 7) (groups carol_online) = Some team
   \<and> \<not> hasMember team (sock_user sockC)
   \<and> new_events carol_online (typing_start env0 sockC 7 ''GroupChat'' carol_online) =
       [(Socket_to 30 (Group_room 7), Typing 7 3 ''carol'')]
   \<and> delivered (typing_start env0 sockC 7 ''GroupChat'' carol_online) 10
        (new_events carol_online (typing_start env0 sockC 7 ''GroupChat'' carol_online)) =
       [Typing 7 3 ''carol'']
   \<and> delivered (typing_start env0 sockC 7 ''GroupChat'' carol_online) 20
        (new_events carol_online (typing_start env0 sockC 7 ''GroupChat'' carol_online)) =
       [Typing 7 3 ''carol'']
   \<and> delivered (typing_start env0 sockC 7 ''GroupChat'' carol_online) 30
        (new_events carol_online (typing_start env0 sockC 7 ''GroupChat'' carol_online)) = []"
proof -
  have t: "typing_start env0 sockC 7 ''GroupChat'' carol_online =
      emit (Socket_to 30 (Group_room 7)) (Typing 7 3 ''carol'') carol_online"
    by (simp add: typing_start_def sockC_def)
  have r: "rooms carol_online (Group_room 7) = {10, 20}"
    by (simp add: carol_online_def chatting_def both_online_def init_def)
  have g: "find (\<lambda>g. g_id g = 7) (groups carol_online) = Some team"
    using find_team(3) by (simp add: team_hi_def)
  show ?thesis
    unfolding t using g members_of_groups(3) by (simp add: new_events_def delivered_def r)
qed

text \<open>
  The handler of \<^verbatim>\<open>mark-as-read\<close> makes no check either, although the REST endpoint
  for the same operation, \<^verbatim>\<open>markMessageAsRead\<close>, refuses a user who has no access to
  the message. Carol takes no part in the chat of alice and bob; her
  \<^verbatim>\<open>mark-as-read\<close> of alice's message is written and alice is sent the receipt.
\<close>

lemma outsider_marks_read:
  "find_chat (sock_user sockC) (m_sender hello) (chats carol_online) = None
   \<and> map c_id (chats carol_online) = [m_chatId hello]
   \<and> messages (mark_as_read env0 sockC 1001 carol_online) =
       [hello\<lparr>readBy := readBy hello @ [\<lparr>rr_user = 3, rr_readAt = 100\<rparr>]\<rparr>]
   \<and> new_events carol_online (mark_as_read env0 sockC 1001 carol_online) =
       [(Io_to (Socket_room 10), Message_read 1001 3 ''carol'' 100)]"
  using find_hello(1)
  by (simp add: mark_as_read_defs Let_def env0_def sockC_def new_events_def find_chat_def)
     (simp add: carol_online_def chatting_def both_online_def init_def hello_def)

section \<open>Claim C4: a failed notification write fails the send\<close>

text \<open>
  Claim C4, as the code has it: the notification writes are inside the handler's single
  try block. Once the message is persisted, a notification write that fails for an offline
  recipient is caught there: the sender gets \<^verbatim>\<open>message-error\<close> and no
  acknowledgement; the persisted message stays, and so does the group broadcast that was
  already emitted. In a group, notifications are written for the offline members before
  the first failing one only.
\<close>

theorem notification_failure_reported:
  "(\<not> fails e Chat_findOne \<and> \<not> fails e Chat_save \<and> \<not> fails e Message_save
      \<and> \<not> fails e Message_populate
      \<and> activeUsers s (recipientId d) = None \<and> fails e (Notification_write (recipientId d)) \<longrightarrow>
      new_events s (send_private_message e sock d s) =
        [(Socket_emit (sock_id sock), Message_error ''Failed to send message'')]
      \<and> messages (send_private_message e sock d s) = messages s @ [private_message e sock d s]
      \<and> notifications (send_private_message e sock d s) = notifications s)
   \<and> (find (\<lambda>g. g_id g = groupId gd) (groups s) = Some g \<and> hasMember g (sock_user sock)
      \<and> \<not> fails e GroupChat_findById \<and> \<not> fails e GroupChat_save \<and> \<not> fails e Message_save
      \<and> \<not> fails e Message_populate
      \<and> u \<in> set (offlineMembers s (sock_user sock) g) \<and> fails e (Notification_write u) \<longrightarrow>
      new_events s (send_group_message e sock gd s) =
        [(Io_to (Group_room (groupId gd)),
          Receive_group_message (group_message e sock gd) (g_id g) (g_name g)),
         (Socket_emit (sock_id sock), Message_error ''Failed to send message'')]
      \<and> messages (send_group_message e sock gd s) = messages s @ [group_message e sock gd]
      \<and> map n_recipient (new_notifications s (send_group_message e sock gd s)) =
          takeWhile (\<lambda>u. \<not> fails e (Notification_write u)) (offlineMembers s (sock_user sock) g))"
proof (intro conjI impI)
  assume a: "\<not> fails e Chat_findOne \<and> \<not> fails e Chat_save \<and> \<not> fails e Message_save
      \<and> \<not> fails e Message_populate
      \<and> activeUsers s (recipientId d) = None \<and> fails e (Notification_write (recipientId d))"
  show "new_events s (send_private_message e sock d s) =
        [(Socket_emit (sock_id sock), Message_error ''Failed to send message'')]"
    using a by (intro new_events_append) (simp add: private_emitted)
  show "messages (send_private_message e sock d s) = messages s @ [private_message e sock d s]"
    using a by (simp add: private_messages)
  show "notifications (send_private_message e sock d s) = notifications s"
    using a by (simp add: private_notifications)
next
  assume a: "find (\<lambda>g. g_id g = groupId gd) (groups s) = Some g \<and> hasMember g (sock_user sock)
      \<and> \<not> fails e GroupChat_findById \<and> \<not> fails e GroupChat_save \<and> \<not> fails e Message_save
      \<and> \<not> fails e Message_populate
      \<and> u \<in> set (offlineMembers s (sock_user sock) g) \<and> fails e (Notification_write u)"
  then have found: "find (\<lambda>g. g_id g = groupId gd) (groups s) = Some g"
    and mem: "hasMember g (sock_user sock)" by simp_all
  from a have "\<not> list_all (\<lambda>u. \<not> fails e (Notification_write u)) (offlineMembers s (sock_user sock) g)"
    by (auto simp: list_all_iff)
  with a show "new_events s (send_group_message e sock gd s) =
        [(Io_to (Group_room (groupId gd)),
          Receive_group_message (group_message e sock gd) (g_id g) (g_name g)),
         (Socket_emit (sock_id sock), Message_error ''Failed to send message'')]"
    by (intro new_events_append) (simp add: group_emitted [OF found mem])
  show "messages (send_group_message e sock gd s) = messages s @ [group_message e sock gd]"
    using a by (simp add: group_messages [OF found mem])
  have "new_notifications s (send_group_message e sock gd s) =
          takeWhile (\<lambda>n. \<not> fails e (Notification_write (n_recipient n)))
            (map (group_notification e sock gd g (group_message e sock gd))
               (enumerate 0 (offlineMembers s (sock_user sock) g)))"
    using a by (intro new_notifications_append) (simp add: group_notifications [OF found mem])
  then show "map n_recipient (new_notifications s (send_group_message e sock gd s)) =
          takeWhile (\<lambda>u. \<not> fails e (Notification_write u)) (offlineMembers s (sock_user sock) g)"
    by (simp add: group_written_recipients)
qed

theorem notification_failure_reported_witness:
  "activeUsers alice_online (recipientId hi) = None
   \<and> fails env_notification_fails (Notification_write (recipientId hi))
   \<and> new_events alice_online (send_private_message env_notification_fails sockA hi alice_online) =
       [(Socket_emit 10, Message_error ''Failed to send message'')]
   \<and> messages (send_private_message env_notification_fails sockA hi alice_online) = [hello]
   \<and> notifications (send_private_message env_notification_fails sockA hi alice_online) = []
   \<and> offlineMembers alice_online (sock_user sockA) club = [2, 3]
   \<and> fails env_notification_fails (Notification_write 2)
   \<and> \<not> fails env_notification_fails (Notification_write 3)
   \<and> new_events alice_online (send_group_message env_notification_fails sockA club_hi alice_online) =
       [(Io_to (Group_room 8),
         Receive_group_message (group_message env_notification_fails sockA club_hi) 8 ''club''),
        (Socket_emit 10, Message_error ''Failed to send message'')]
   \<and> map n_recipient
        (new_notifications alice_online
           (send_group_message env_notification_fails sockA club_hi alice_online)) = []"
  using notification_failure_reported
    [of env_notification_fails alice_online hi sockA club_hi club 2]
    find_club(1) members_of_groups(1) offline_club_alice_online
  by (simp add: private_message_def private_chat_alice_online new_message_def or_default_def or_null_def)
     (simp add: env_notification_fails_def hi_def alice_online_def init_def sockA_def hello_def
        club_hi_def club_def)

text \<open>
  The claim as stated fails: bob is offline, the write of his notification fails, and
  alice, whose message is persisted, gets the error event and no acknowledgement.
\<close>

theorem notification_failure_counterexample:
  "messages (send_private_message env_notification_fails sockA hi alice_online) = [hello]
   \<and> emitted (send_private_message env_notification_fails sockA hi alice_online) =
       [(Socket_emit 10, Message_error ''Failed to send message'')]"
  by (simp add: private_messages private_emitted private_message_def private_chat_alice_online
        new_message_def or_default_def or_null_def)
     (simp add: env_notification_fails_def hi_def alice_online_def init_def sockA_def hello_def)

section \<open>Claim C5: the last-activity write comes first and can fail the send\<close>




section \<open>Claim C6: the group broadcast goes to the whole room\<close>

text \<open>
  Claim C6, as the code has it. Take a group message send that gets as far as the fanout:
  the group is found, the sender is a member, and the write of the last activity, the
  write of the message and the populate of the sender succeed. Then the event
  \<^verbatim>\<open>receive-group-message\<close> is emitted with \<^verbatim>\<open>io.to\<close> to the room of the
  group, so a connection receives it exactly when it is in that room, and this holds for
  the sender's own connection too. After it the sender's connection receives the
  acknowledgement \<^verbatim>\<open>group-message-sent\<close> when no notification write fails, and
  \<^verbatim>\<open>message-error\<close> otherwise.
\<close>

theorem group_broadcast_reaches_room:
  assumes "find (\<lambda>g. g_id g = groupId d) (groups s) = Some g" and "hasMember g (sock_user sock)"
    and "\<not> fails e GroupChat_findById" and "\<not> fails e GroupChat_save"
    and "\<not> fails e Message_save" and "\<not> fails e Message_populate"
  shows "((Receive_group_message (group_message e sock d) (g_id g) (g_name g)
            \<in> set (delivered (send_group_message e sock d s) sid
                      (new_events s (send_group_message e sock d s))))
          = (sid \<in> rooms s (Group_room (groupId d))))
       \<and> delivered (send_group_message e sock d s) (sock_id sock)
            (new_events s (send_group_message e sock d s)) =
           (if sock_id sock \<in> rooms s (Group_room (groupId d))
            then [Receive_group_message (group_message e sock d) (g_id g) (g_name g)] else [])
           @ [if list_all (\<lambda>u. \<not> fails e (Notification_write u)) (offlineMembers s (sock_user sock) g)
              then Group_message_sent (group_message e sock d) (groupId d)
              else Message_error ''Failed to send message'']"
proof -
  have "new_events s (send_group_message e sock d s) =
        [(Io_to (Group_room (groupId d)), Receive_group_message (group_message e sock d) (g_id g) (g_name g)),
         (Socket_emit (sock_id sock),
          if list_all (\<lambda>u. \<not> fails e (Notification_write u)) (offlineMembers s (sock_user sock) g)
          then Group_message_sent (group_message e sock d) (groupId d)
          else Message_error ''Failed to send message'')]"
    using assms(3-6) by (intro new_events_append) (simp add: group_emitted [OF assms(1,2)])
  then show ?thesis
    by (simp add: delivered_def group_frame)
qed

theorem group_broadcast_reaches_room_witness:
  "sock_id sockA = 10 \<and> m_sender (group_message env0 sockA team_hi) = sock_user sockA
   \<and> 10 \<in> rooms both_online (Group_room (groupId team_hi))
   \<and> Receive_group_message (group_message env0 sockA team_hi) (g_id team) (g_name team)
        \<in> set (delivered (send_group_message env0 sockA team_hi both_online) 10
                  (new_events both_online (send_group_message env0 sockA team_hi both_online)))
   \<and> delivered (send_group_message env0 sockA team_hi both_online) 10
        (new_events both_online (send_group_message env0 sockA team_hi both_online)) =
       [Receive_group_message (group_message env0 sockA team_hi) (g_id team) (g_name team),
        Group_message_sent (group_message env0 sockA team_hi) (groupId team_hi)]
   \<and> offlineMembers alice_online (sock_user sockA) club = [2, 3]
   \<and> fails env_notification_fails (Notification_write 2)
   \<and> delivered (send_group_message env_notification_fails sockA club_hi alice_online) 10
        (new_events alice_online (send_group_message env_notification_fails sockA club_hi alice_online)) =
       [Receive_group_message (group_message env_notification_fails sockA club_hi) (g_id club) (g_name club),
        Message_error ''Failed to send message'']"
proof -
  have nf: "\<not> fails env0 x" for x by (simp add: env0_def)
  have ef: "\<not> fails env_notification_fails GroupChat_findById"
    "\<not> fails env_notification_fails GroupChat_save" "\<not> fails env_notification_fails Message_save"
    "\<not> fails env_notification_fails Message_populate" "fails env_notification_fails (Notification_write 2)"
    by (simp_all add: env_notification_fails_def)
  have c: "sock_id sockA = 10" "m_sender (group_message env0 sockA team_hi) = sock_user sockA"
    "10 \<in> rooms both_online (Group_room (groupId team_hi))"
    "10 \<in> rooms alice_online (Group_room (groupId club_hi))"
    by (simp_all add: sockA_def group_message_def new_message_def both_online_def alice_online_def
        init_def team_hi_def club_hi_def)
  have o: "offlineMembers both_online (sock_user sockA) team = []"
    by (simp add: offlineMembers_def both_online_def init_def team_def sockA_def)
  from group_broadcast_reaches_room [OF find_team(2) members_of_groups(2) nf nf nf nf, of 10]
    group_broadcast_reaches_room [OF find_club(1) members_of_groups(1) ef(1-4), of 10]
    c nf ef o offline_club_alice_online
  show ?thesis by simp
qed

text \<open>
  The claim as stated fails: alice (connection 10) sends to the group and her own
  connection receives the event.
\<close>

theorem sender_receives_counterexample:
  "m_sender (group_message env0 sockA team_hi) = sock_user sockA
   \<and> Receive_group_message (group_message env0 sockA team_hi) 7 ''team''
        \<in> set (delivered (send_group_message env0 sockA team_hi both_online) (sock_id sockA)
                  (new_events both_online (send_group_message env0 sockA team_hi both_online)))"
  using group_emitted [OF find_team(2) members_of_groups(2), of env0]
  by (simp add: env0_def new_events_def delivered_def group_frame group_message_def new_message_def
      sockA_def both_online_def init_def team_hi_def team_def)

section \<open>Claim C7: marking a message read twice\<close>

text \<open>
  When the second run starts after the first has ended, and the message had at most one
  read entry of the user, the second run changes nothing and the message has exactly one
  entry of the user.
\<close>

lemma mark_as_read_twice_in_sequence:
  assumes found: "find (\<lambda>m. m_id m = mid) (messages s) = Some msg"
    and once: "length (filter (\<lambda>r. rr_user r = sock_user sock) (readBy msg)) \<le> 1"
    and ok: "\<not> fails e1 Message_findById" "\<not> fails e1 Message_save"
  shows "mark_as_read e2 sock mid (mark_as_read e1 sock mid s) = mark_as_read e1 sock mid s
       \<and> (\<exists>msg'. find (\<lambda>m. m_id m = mid) (messages (mark_as_read e1 sock mid s)) = Some msg'
             \<and> length (filter (\<lambda>r. rr_user r = sock_user sock) (readBy msg')) = 1)"
proof (cases "list_ex (\<lambda>r. rr_user r = sock_user sock) (readBy msg)")
  case True
  have same: "mark_as_read e1 sock mid s = s"
    using found True by (rule mark_as_read_already)
  have "length (filter (\<lambda>r. rr_user r = sock_user sock) (readBy msg)) = 1"
    using filter_some [OF True] once by simp
  with found same mark_as_read_already [OF found True, of e2] show ?thesis by simp
next
  case False
  let ?s1 = "mark_as_read e1 sock mid s"
  let ?msg' = "msg\<lparr>readBy := readBy msg @ [\<lparr>rr_user = sock_user sock, rr_readAt = now e1\<rparr>]\<rparr>"
  have "messages ?s1 =
          map (\<lambda>m. if m_id m = mid
                    then m\<lparr>readBy := readBy m @ [\<lparr>rr_user = sock_user sock, rr_readAt = now e1\<rparr>]\<rparr>
                    else m) (messages s)"
    using found False ok by (rule mark_as_read_messages)
  then have found': "find (\<lambda>m. m_id m = mid) (messages ?s1) = Some ?msg'"
    using found
    by (simp add: find_map_same_id
        [of "\<lambda>m. m\<lparr>readBy := readBy m @ [\<lparr>rr_user = sock_user sock, rr_readAt = now e1\<rparr>]\<rparr>"])
  have read: "list_ex (\<lambda>r. rr_user r = sock_user sock) (readBy ?msg')"
    by simp
  have "length (filter (\<lambda>r. rr_user r = sock_user sock) (readBy ?msg')) = 1"
    using filter_none [OF False] by simp
  with found' mark_as_read_already [OF found' read, of e2] show ?thesis by simp
qed

text \<open>
  Claim C7 fails when bob's connection sends \<^verbatim>\<open>mark-as-read\<close> for alice's message
  twice back to back. Both handlers send their \<^verbatim>\<open>findById\<close> before either has
  saved, so both load the message without an entry of bob and both pass the test of
  \<^verbatim>\<open>readBy\<close>; the first goes on to its end, then the second, with the document it
  had loaded. The message ends with two read entries of bob, and alice is sent two read
  receipts.
\<close>

theorem overlapping_marks_append_twice:
  "findById_message env0 1001 chatting = Resolves (Some hello)
   \<and> map rr_user (readBy hello) = [1]
   \<and> sock_user sockB = 2
   \<and> map (\<lambda>m. map rr_user (readBy m))
        (messages (mark_as_read_resume env0 sockB 1001 (Some hello)
                     (mark_as_read_resume env0 sockB 1001 (Some hello) chatting))) = [[1, 2, 2]]
   \<and> new_events chatting
        (mark_as_read_resume env0 sockB 1001 (Some hello)
           (mark_as_read_resume env0 sockB 1001 (Some hello) chatting)) =
       [(Io_to (Socket_room 10), Message_read 1001 2 ''bob'' 100),
        (Io_to (Socket_room 10), Message_read 1001 2 ''bob'' 100)]"
proof -
  have f: "findById_message env0 1001 chatting = Resolves (Some hello)"
    using find_hello(2) by (simp add: findById_message_def env0_def)
  have h: "map rr_user (readBy hello) = [1]" "sock_user sockB = 2"
    by (simp_all add: hello_def sockB_def)
  have r: "mark_as_read_resume env0 sockB 1001 (Some hello) s =
      emit (Io_to (Socket_room 10)) (Message_read 1001 2 ''bob'' 100)
        (s\<lparr>messages :=
             map (\<lambda>m. if m_id m = 1001
                       then m\<lparr>readBy := readBy m @ [\<lparr>rr_user = 2, rr_readAt = 100\<rparr>]\<rparr>
                       else m) (messages s)\<rparr>)"
    if "activeUsers s 1 = Some 10" for s
    using that
    by (simp add: mark_as_read_resume_def mark_as_read_loaded_def mark_as_read_saved_def Let_def
        env0_def sockB_def hello_def)
  let ?s1 = "mark_as_read_resume env0 sockB 1001 (Some hello) chatting"
  let ?s2 = "mark_as_read_resume env0 sockB 1001 (Some hello) ?s1"
  have a: "activeUsers chatting 1 = Some 10"
    by (simp add: chatting_def both_online_def init_def)
  have m: "messages chatting = [hello]" "emitted chatting = []"
    by (simp_all add: chatting_def both_online_def init_def)
  have i: "m_id hello = 1001" by (simp add: hello_def)
  have s1: "activeUsers ?s1 1 = Some 10"
    "messages ?s1 = [hello\<lparr>readBy := readBy hello @ [\<lparr>rr_user = 2, rr_readAt = 100\<rparr>]\<rparr>]"
    "emitted ?s1 = [(Io_to (Socket_room 10), Message_read 1001 2 ''bob'' 100)]"
    unfolding r [OF a] using a by (simp_all add: m i)
  have s2: "messages ?s2 =
      [hello\<lparr>readBy := readBy hello @ [\<lparr>rr_user = 2, rr_readAt = 100\<rparr>, \<lparr>rr_user = 2, rr_readAt = 100\<rparr>]\<rparr>]"
    "emitted ?s2 = [(Io_to (Socket_room 10), Message_read 1001 2 ''bob'' 100),
                    (Io_to (Socket_room 10), Message_read 1001 2 ''bob'' 100)]"
    unfolding r [OF s1(1)] using s1 by (simp_all add: i)
  show ?thesis
    using f h by (simp add: s2 m new_events_def)
qed

section \<open>Claim C8: the text of a fanout notification\<close>

text \<open>
  Every notification that the private or the group message handler creates has this
  content. When the payload has a non-empty text, the sender's name (and the group's),
  followed by the text itself if it has at most 30 characters and by its first 30
  characters and three dots otherwise. When the payload has no text, or an empty one, the
  sender's name followed by the \<^verbatim>\<open>messageType\<close> field of the payload as the template
  prints it.
\<close>

lemma notification_text_of_payload:
  "(n \<in> set (new_notifications s (send_private_message e sock d s)) \<longrightarrow>
      (\<forall>c. content d = Some c \<and> c \<noteq> [] \<longrightarrow>
           n_content n = sock_username sock @ '' sent you a message: '' @
                           (if length c \<le> 30 then c else take 30 c @ ''...''))
      \<and> (content d = None \<or> content d = Some [] \<longrightarrow>
           n_content n = sock_username sock @ '' sent you a '' @ template (messageType d)))
   \<and> (find (\<lambda>g. g_id g = groupId gd) (groups s) = Some g
        \<and> n \<in> set (new_notifications s (send_group_message e sock gd s)) \<longrightarrow>
      (\<forall>c. content gd = Some c \<and> c \<noteq> [] \<longrightarrow>
           n_content n = sock_username sock @ '' sent a message in '' @ g_name g @ '': '' @
                           (if length c \<le> 30 then c else take 30 c @ ''...''))
      \<and> (content gd = None \<or> content gd = Some [] \<longrightarrow>
           n_content n = sock_username sock @ '' sent a '' @ template (messageType gd) @ '' in '' @ g_name g))"
proof (intro conjI impI allI)
  fix c
  assume n: "n \<in> set (new_notifications s (send_private_message e sock d s))"
    and c: "content d = Some c \<and> c \<noteq> []"
  show "n_content n = sock_username sock @ '' sent you a message: '' @
                           (if length c \<le> 30 then c else take 30 c @ ''...'')"
    using private_new_notifications [OF n] c private_content_text [of c] by simp
next
  assume n: "n \<in> set (new_notifications s (send_private_message e sock d s))"
    and c: "content d = None \<or> content d = Some []"
  show "n_content n = sock_username sock @ '' sent you a '' @ template (messageType d)"
    using private_new_notifications [OF n] private_content_type [OF c] by simp
next
  fix c
  assume n: "find (\<lambda>g. g_id g = groupId gd) (groups s) = Some g
        \<and> n \<in> set (new_notifications s (send_group_message e sock gd s))"
    and c: "content gd = Some c \<and> c \<noteq> []"
  show "n_content n = sock_username sock @ '' sent a message in '' @ g_name g @ '': '' @
                           (if length c \<le> 30 then c else take 30 c @ ''...'')"
    using group_new_notifications [of gd s g n e sock] n c group_content_text [of c] by simp
next
  assume n: "find (\<lambda>g. g_id g = groupId gd) (groups s) = Some g
        \<and> n \<in> set (new_notifications s (send_group_message e sock gd s))"
    and c: "content gd = None \<or> content gd = Some []"
  show "n_content n = sock_username sock @ '' sent a '' @ template (messageType gd) @ '' in '' @ g_name g"
    using group_new_notifications [of gd s g n e sock] n group_content_type [OF c] by simp
qed

lemma notification_text_examples:
  "hello_note \<in> set (new_notifications alice_online (send_private_message env0 sockA hi alice_online))
   \<and> content hi = Some ''hi''
   \<and> n_content hello_note = ''alice sent you a message: hi''
   \<and> map n_content (new_notifications alice_online (send_private_message env0 sockA essay alice_online)) =
       [''alice sent you a message: The quick brown fox jumps over...'']
   \<and> content photo = None \<and> messageType photo = Some ''image''
   \<and> map n_content (new_notifications alice_online (send_private_message env0 sockA photo alice_online)) =
       [''alice sent you a image'']
   \<and> map n_content (new_notifications alice_online (send_group_message env0 sockA club_hi alice_online)) =
       [''alice sent a message in club: hi'', ''alice sent a message in club: hi'']"
proof -
  let ?note = "\<lambda>p. private_notification env0 sockA p (private_chat env0 sockA p alice_online)
                      (private_message env0 sockA p alice_online)"
  let ?gnote = "group_notification env0 sockA club_hi club (group_message env0 sockA club_hi)"
  have r: "recipientId hi = 2" "recipientId essay = 2" "recipientId photo = 2"
    by (simp_all add: hi_def essay_def photo_def)
  have h: "?note hi = hello_note"
    unfolding private_notification_def private_message_def private_chat_alice_online
    by (simp add: new_message_def private_notification_content_def preview_def hello_note_def
        hi_def sockA_def env0_def)
  have m1: "hello_note \<in> set (new_notifications alice_online (send_private_message env0 sockA hi alice_online))"
    by (simp add: alice_online_private [OF r(1)] h)
  have m2: "?note essay \<in> set (new_notifications alice_online (send_private_message env0 sockA essay alice_online))"
    by (simp add: alice_online_private [OF r(2)])
  have m3: "?note photo \<in> set (new_notifications alice_online (send_private_message env0 sockA photo alice_online))"
    by (simp add: alice_online_private [OF r(3)])
  have m4: "?gnote (0, 2) \<in> set (new_notifications alice_online (send_group_message env0 sockA club_hi alice_online))"
    "?gnote (1, 3) \<in> set (new_notifications alice_online (send_group_message env0 sockA club_hi alice_online))"
    by (simp_all add: alice_online_club)
  have c1: "n_content hello_note = ''alice sent you a message: hi''"
    using notification_text_of_payload [of hello_note alice_online env0 sockA hi] m1
    by (simp add: hi_def sockA_def)
  have c2: "n_content (?note essay) = ''alice sent you a message: The quick brown fox jumps over...''"
    using notification_text_of_payload [of "?note essay" alice_online env0 sockA essay] m2
    by (simp add: essay_def sockA_def)
  have c3: "n_content (?note photo) = ''alice sent you a image''"
    using notification_text_of_payload [of "?note photo" alice_online env0 sockA photo] m3
    by (simp add: photo_def sockA_def template_def)
  have c4: "n_content (?gnote (0, 2)) = ''alice sent a message in club: hi''"
    using notification_text_of_payload [of "?gnote (0, 2)" alice_online env0 sockA _ club_hi club]
      m4(1) find_club(1)
    by (simp add: club_hi_def sockA_def club_def)
  have c5: "n_content (?gnote (1, 3)) = ''alice sent a message in club: hi''"
    using notification_text_of_payload [of "?gnote (1, 3)" alice_online env0 sockA _ club_hi club]
      m4(2) find_club(1)
    by (simp add: club_hi_def sockA_def club_def)
  have "content hi = Some ''hi''" "content photo = None" "messageType photo = Some ''image''"
    by (simp_all add: hi_def photo_def)
  with m1 c1 c2 c3 c4 c5 show ?thesis
    by (simp add: alice_online_private [OF r(2)] alice_online_private [OF r(3)] alice_online_club)
qed

text \<open>
  Claim C8 fails for a message without text whose payload names no type, which the
  payload of both send events allows. The message is stored with the default type
  \<^verbatim>\<open>text\<close>, but the notification is built from the field of the payload, which the
  template prints as the word undefined. It fails as well for a text of blanks only: the
  message is stored with an empty content, and the notification embeds the blanks.
\<close>

theorem notification_without_type_or_text:
  "content untyped = None \<and> messageType untyped = None
   \<and> messages (send_private_message env0 sockA untyped alice_online) =
       [private_message env0 sockA untyped alice_online]
   \<and> m_content (private_message env0 sockA untyped alice_online) = []
   \<and> m_messageType (private_message env0 sockA untyped alice_online) = ''text''
   \<and> map n_content
        (new_notifications alice_online (send_private_message env0 sockA untyped alice_online)) =
       [''alice sent you a undefined'']
   \<and> content blank = Some ''   ''
   \<and> m_content (private_message env0 sockA blank alice_online) = []
   \<and> map n_content
        (new_notifications alice_online (send_private_message env0 sockA blank alice_online)) =
       [''alice sent you a message:    '']"
proof -
  have r: "recipientId untyped = 2" "recipientId blank = 2"
    "content untyped = None" "messageType untyped = None" "content blank = Some ''   ''"
    by (simp_all add: untyped_def blank_def)
  have nf: "\<not> fails env0 x" for x by (simp add: env0_def)
  have m: "messages (send_private_message env0 sockA untyped alice_online) =
       [private_message env0 sockA untyped alice_online]"
    by (simp add: private_messages nf alice_online_def init_def)
  have t: "m_content (private_message env0 sockA untyped alice_online) = []"
    "m_messageType (private_message env0 sockA untyped alice_online) = ''text''"
    "m_content (private_message env0 sockA blank alice_online) = []"
    by (simp_all add: private_message_def new_message_def or_default_def untyped_def blank_def)
  have n: "n_content (private_notification env0 sockA untyped ch msg) = ''alice sent you a undefined''"
    "n_content (private_notification env0 sockA blank ch msg) = ''alice sent you a message:    ''"
    for ch msg
    by (simp_all add: private_notification_def private_notification_content_def template_def
        preview_def untyped_def blank_def sockA_def)
  from r m t show ?thesis
    by (simp add: alice_online_private [OF r(1)] alice_online_private [OF r(2)] n)
qed

section \<open>Claim C9: setting the status leaves presence and rooms alone\<close>

text \<open>
  Claim C9: a \<^verbatim>\<open>set-status\<close> event, whatever the status, leaves
  \<^verbatim>\<open>activeUsers\<close>, the rooms and every collection but the users unchanged; of the
  users it changes at most the document of the caller, and there neither the name nor the
  socket id; it emits nothing but the status change to friends, or the error for an
  invalid status. So a private message to a user with an entry is still delivered live
  and creates no notification after that user's status was set, and such a user is not
  among the offline members of a group.
\<close>

theorem set_status_keeps_presence:
  "activeUsers (set_status e sock st s) = activeUsers s
   \<and> rooms (set_status e sock st s) = rooms s
   \<and> friendships (set_status e sock st s) = friendships s
   \<and> chats (set_status e sock st s) = chats s
   \<and> groups (set_status e sock st s) = groups s
   \<and> messages (set_status e sock st s) = messages s
   \<and> notifications (set_status e sock st s) = notifications s
   \<and> (\<forall>u. u \<noteq> sock_user sock \<longrightarrow> users (set_status e sock st s) u = users s u)
   \<and> map_option username (users (set_status e sock st s) (sock_user sock)) =
       map_option username (users s (sock_user sock))
   \<and> map_option u_socketId (users (set_status e sock st s) (sock_user sock)) =
       map_option u_socketId (users s (sock_user sock))
   \<and> set (map snd (new_events s (set_status e sock st s))) \<subseteq>
       {User_status_change (sock_user sock) (sock_username sock) st
          (if st = ''offline'' then Some (now e) else None),
        Error_event ''Invalid status''}
   \<and> (activeUsers s (recipientId d) = Some r
        \<and> \<not> fails e2 Chat_findOne \<and> \<not> fails e2 Chat_save \<and> \<not> fails e2 Message_save
        \<and> \<not> fails e2 Message_populate \<longrightarrow>
        new_notifications (set_status e sock st s)
          (send_private_message e2 sock2 d (set_status e sock st s)) = []
        \<and> (\<exists>msg cid ps.
              new_events (set_status e sock st s)
                (send_private_message e2 sock2 d (set_status e sock st s)) =
                [(Io_to (Socket_room r), Receive_private_message msg cid ps),
                 (Socket_emit (sock_id sock2), Private_message_sent msg cid)]))
   \<and> (activeUsers s u = Some r \<longrightarrow> u \<notin> set (offlineMembers (set_status e sock st s) sender g))"
proof -
  let ?s = "set_status e sock st s"
  have live: "new_notifications ?s (send_private_message e2 sock2 d ?s) = []
        \<and> (\<exists>msg cid ps.
              new_events ?s (send_private_message e2 sock2 d ?s) =
                [(Io_to (Socket_room r), Receive_private_message msg cid ps),
                 (Socket_emit (sock_id sock2), Private_message_sent msg cid)])"
    if a: "activeUsers s (recipientId d) = Some r
        \<and> \<not> fails e2 Chat_findOne \<and> \<not> fails e2 Chat_save \<and> \<not> fails e2 Message_save
        \<and> \<not> fails e2 Message_populate"
  proof
    show "new_notifications ?s (send_private_message e2 sock2 d ?s) = []"
      using a by (intro new_notifications_append) (simp add: private_notifications set_status_frame)
    have "new_events ?s (send_private_message e2 sock2 d ?s) =
            [(Io_to (Socket_room r),
              Receive_private_message (private_message e2 sock2 d ?s) (c_id (private_chat e2 sock2 d ?s))
                (participants (private_chat e2 sock2 d ?s))),
             (Socket_emit (sock_id sock2),
              Private_message_sent (private_message e2 sock2 d ?s) (c_id (private_chat e2 sock2 d ?s)))]"
      using a by (intro new_events_append) (simp add: private_emitted set_status_frame)
    then show "\<exists>msg cid ps.
              new_events ?s (send_private_message e2 sock2 d ?s) =
                [(Io_to (Socket_room r), Receive_private_message msg cid ps),
                 (Socket_emit (sock_id sock2), Private_message_sent msg cid)]"
      by blast
  qed
  have off: "u \<notin> set (offlineMembers ?s sender g)" if "activeUsers s u = Some r"
    using that by (auto simp: offlineMembers_def set_status_frame)
  show ?thesis
    using live off set_status_events [of s e sock st]
    by (simp add: set_status_frame set_status_users)
qed

theorem set_status_keeps_presence_witness:
  "activeUsers both_online (sock_user sockB) = Some 20 \<and> recipientId hi = sock_user sockB
   \<and> map_option u_status (users (set_status env0 sockB ''offline'' both_online) (sock_user sockB)) =
       Some ''offline''
   \<and> activeUsers (set_status env0 sockB ''offline'' both_online) (sock_user sockB) = Some 20
   \<and> rooms (set_status env0 sockB ''offline'' both_online) = rooms both_online
   \<and> new_notifications (set_status env0 sockB ''offline'' both_online)
        (send_private_message env0 sockA hi (set_status env0 sockB ''offline'' both_online)) = []
   \<and> (\<exists>msg cid ps.
         new_events (set_status env0 sockB ''offline'' both_online)
           (send_private_message env0 sockA hi (set_status env0 sockB ''offline'' both_online)) =
           [(Io_to (Socket_room 20), Receive_private_message msg cid ps),
            (Socket_emit (sock_id sockA), Private_message_sent msg cid)])
   \<and> 2 \<notin> set (offlineMembers (set_status env0 sockB ''offline'' both_online) (sock_user sockA) team)"
proof -
  have a: "activeUsers both_online (sock_user sockB) = Some 20" "recipientId hi = sock_user sockB"
    "activeUsers both_online (recipientId hi) = Some 20" "activeUsers both_online 2 = Some 20"
    by (simp_all add: both_online_def init_def sockB_def hi_def)
  have nf: "\<not> fails env0 x" for x by (simp add: env0_def)
  have u: "map_option u_status (users (set_status env0 sockB ''offline'' both_online) (sock_user sockB)) =
       Some ''offline''"
    by (simp add: set_status_def Let_def env0_def sockB_def both_online_def init_def accounts_def)
  from set_status_keeps_presence
    [of env0 sockB "''offline''" both_online hi 20 env0 sockA 2 "sock_user sockA" team] a nf u
  show ?thesis by simp
qed

section \<open>Claim C10: marking a notification read\<close>

text \<open>
  Claim C10: for every connection and every notification id, the notification with that id
  gets \<^verbatim>\<open>isRead\<close> and \<^verbatim>\<open>readAt\<close> set when the update does not fail; the outcome
  is the same for every caller (the recipient is not compared with the caller); a failed
  update changes nothing; no event is emitted in either case.
\<close>

theorem notification_read_unconditional:
  assumes "i < length (notifications s)" and "n_id (notifications s ! i) = nid"
  shows "(\<not> fails e Notification_findByIdAndUpdate \<longrightarrow>
            notifications (notification_read e sock nid s) ! i =
              (notifications s ! i)\<lparr>isRead := True, n_readAt := Some (now e)\<rparr>)
       \<and> (fails e Notification_findByIdAndUpdate \<longrightarrow> notification_read e sock nid s = s)
       \<and> emitted (notification_read e sock nid s) = emitted s
       \<and> notification_read e sock' nid s = notification_read e sock nid s"
  using assms by (simp add: notification_read_def)

theorem notification_read_unconditional_witness:
  "0 < length (notifications chatting) \<and> n_id (notifications chatting ! 0) = 1002
   \<and> n_recipient (notifications chatting ! 0) = 2 \<and> sock_user sockC = 3
   \<and> \<not> fails env0 Notification_findByIdAndUpdate
   \<and> notifications (notification_read env0 sockC 1002 chatting) ! 0 = hello_note\<lparr>isRead := True, n_readAt := Some 100\<rparr>
   \<and> emitted (notification_read env0 sockC 1002 chatting) = []"
  using notification_read_unconditional [of 0 chatting 1002 env0 sockC sockC]
  by (simp add: chatting_def both_online_def init_def hello_note_def env0_def sockC_def)

end
